theory Spec2Isabelle
  imports Complex_Main
begin

section \<open>Bridge gap resonator: the scattering-parameter pipeline\<close>

text \<open>
  A shallow embedding of \<^verbatim>\<open>examples/meep/bridge_gap_resonator.py\<close> and of the
  generated \<^verbatim>\<open>crates/meep-export/examples/bridge_gap_resonator_meep.py\<close>.
\<close>

subsection \<open>Floats\<close>

text \<open>
  A Python float (and a numpy \<^verbatim>\<open>float64\<close>) is an IEEE 754 double. It is modelled by
  its value: a finite real number, one of the two infinities, or not-a-number. The two
  zeros are one value: the script compares a zero with \<^verbatim>\<open>!= 0\<close> and takes its absolute
  value, and never divides by one.
\<close>

datatype npfloat = Fin real | PosInf | NegInf | NaN

text \<open>Rounding a real number to the nearest integer, a tie to the even one.\<close>

definition round_even :: "real \<Rightarrow> int" where
  "round_even y =
     (if y - of_int \<lfloor>y\<rfloor> < 1 / 2 then \<lfloor>y\<rfloor>
      else if 1 / 2 < y - of_int \<lfloor>y\<rfloor> then \<lfloor>y\<rfloor> + 1
      else if even \<lfloor>y\<rfloor> then \<lfloor>y\<rfloor> else \<lfloor>y\<rfloor> + 1)"

text \<open>
  The exponent of the spacing of the doubles around \<open>x\<close>: 52 below the binary exponent of
  \<open>x\<close>, and \<open>-1074\<close> for every \<open>x\<close> below the smallest normal number \<open>2\<^sup>-\<^sup>1\<^sup>0\<^sup>2\<^sup>2\<close>.
\<close>

definition ulp_exponent :: "real \<Rightarrow> int" where
  "ulp_exponent x = max \<lfloor>log 2 \<bar>x\<bar>\<rfloor> (- 1022) - 52"

text \<open>
  The double that stores the exact result \<open>x\<close> of an operation: the nearest multiple of
  the spacing (so a result below \<open>2\<^sup>-\<^sup>1\<^sup>0\<^sup>7\<^sup>5\<close> becomes zero), and an infinity when that
  multiple reaches \<open>2\<^sup>1\<^sup>0\<^sup>2\<^sup>4\<close>.
\<close>

definition round_to_double :: "real \<Rightarrow> npfloat" where
  "round_to_double x =
     (let u = 2 powr of_int (ulp_exponent x);
          y = u * of_int (round_even (x / u))
      in if 2 ^ 1024 \<le> \<bar>y\<bar> then (if 0 < x then PosInf else NegInf) else Fin y)"

text \<open>\<^verbatim>\<open>-a\<close> and \<^verbatim>\<open>abs(a)\<close>: exact.\<close>

fun fneg :: "npfloat \<Rightarrow> npfloat" where
  "fneg (Fin x) = Fin (- x)"
| "fneg PosInf = NegInf"
| "fneg NegInf = PosInf"
| "fneg NaN = NaN"

fun fabs :: "npfloat \<Rightarrow> npfloat" where
  "fabs (Fin x) = Fin \<bar>x\<bar>"
| "fabs PosInf = PosInf"
| "fabs NegInf = PosInf"
| "fabs NaN = NaN"

text \<open>
  \<^verbatim>\<open>a / b\<close>. Python raises \<^verbatim>\<open>ZeroDivisionError\<close> for a zero divisor; the two
  divisions of the script have a divisor that is not zero (the guard \<^verbatim>\<open>i != 0\<close> and the
  literal \<^verbatim>\<open>300.0\<close>), so that case is never evaluated: it is given the value \<open>NaN\<close>.
\<close>

definition fdiv :: "npfloat \<Rightarrow> npfloat \<Rightarrow> npfloat" where
  "fdiv a b =
     (case b of
        NaN \<Rightarrow> NaN
      | Fin y \<Rightarrow>
         (if y = 0 then NaN
          else case a of
                 Fin x \<Rightarrow> round_to_double (x / y)
               | PosInf \<Rightarrow> (if 0 < y then PosInf else NegInf)
               | NegInf \<Rightarrow> (if 0 < y then NegInf else PosInf)
               | NaN \<Rightarrow> NaN)
      | PosInf \<Rightarrow> (case a of Fin x \<Rightarrow> Fin 0 | PosInf \<Rightarrow> NaN | NegInf \<Rightarrow> NaN | NaN \<Rightarrow> NaN)
      | NegInf \<Rightarrow> (case a of Fin x \<Rightarrow> Fin 0 | PosInf \<Rightarrow> NaN | NegInf \<Rightarrow> NaN | NaN \<Rightarrow> NaN))"

text \<open>\<^verbatim>\<open>a * b\<close>.\<close>

definition fmul :: "npfloat \<Rightarrow> npfloat \<Rightarrow> npfloat" where
  "fmul a b =
     (case a of
        NaN \<Rightarrow> NaN
      | Fin x \<Rightarrow>
         (case b of
            NaN \<Rightarrow> NaN
          | Fin y \<Rightarrow> round_to_double (x * y)
          | PosInf \<Rightarrow> (if x = 0 then NaN else if 0 < x then PosInf else NegInf)
          | NegInf \<Rightarrow> (if x = 0 then NaN else if 0 < x then NegInf else PosInf))
      | PosInf \<Rightarrow>
         (case b of
            NaN \<Rightarrow> NaN
          | Fin y \<Rightarrow> (if y = 0 then NaN else if 0 < y then PosInf else NegInf)
          | PosInf \<Rightarrow> PosInf
          | NegInf \<Rightarrow> NegInf)
      | NegInf \<Rightarrow>
         (case b of
            NaN \<Rightarrow> NaN
          | Fin y \<Rightarrow> (if y = 0 then NaN else if 0 < y then NegInf else PosInf)
          | PosInf \<Rightarrow> NegInf
          | NegInf \<Rightarrow> PosInf))"

text \<open>
  \<^verbatim>\<open>np.log10(a)\<close>: minus infinity at zero, not-a-number below zero, and the rounded
  logarithm of a positive number.
\<close>

fun np_log10 :: "npfloat \<Rightarrow> npfloat" where
  "np_log10 (Fin x) =
     (if 0 < x then round_to_double (log 10 x) else if x = 0 then NegInf else NaN)"
| "np_log10 PosInf = PosInf"
| "np_log10 NegInf = NaN"
| "np_log10 NaN = NaN"

subsection \<open>Configuration and unit conversion\<close>

text \<open>\<^verbatim>\<open>MM_TO_UM = 1000\<close>\<close>

definition MM_TO_UM :: real where
  "MM_TO_UM = 1000"

text \<open>
  The \<^verbatim>\<open>config\<close> dictionary: its keys are fixed, so it is a record. Its entries are
  finite numbers; the lengths and the coordinates computed from them are kept as real
  numbers.
\<close>

record config =
  gap :: real
  bridge_w :: real
  bridge_t :: real
  pad_length :: real
  substrate_r :: real
  substrate_h :: real
  wall_thickness :: real
  resolution :: real
  pml_thickness :: real
  freq_center_ghz :: real
  freq_width_ghz :: real

text \<open>The module-level \<^verbatim>\<open>config\<close> as the script defines it.\<close>

definition default_config :: config where
  "default_config = \<lparr>
     gap = 2.5 * MM_TO_UM,
     bridge_w = 8 * MM_TO_UM,
     bridge_t = 0.5 * MM_TO_UM,
     pad_length = 25 * MM_TO_UM,
     substrate_r = 15 * MM_TO_UM,
     substrate_h = 9.6 * MM_TO_UM,
     wall_thickness = 2 * MM_TO_UM,
     resolution = 5,
     pml_thickness = 2000,
     freq_center_ghz = 5.0,
     freq_width_ghz = 4.0 \<rparr>"

text \<open>
  \<^verbatim>\<open>def ghz_to_meep(f_ghz): return f_ghz / 300.0\<close>

  \<^verbatim>\<open>def meep_to_ghz(f_meep): return f_meep * 300.0\<close>
\<close>

definition ghz_to_meep :: "npfloat \<Rightarrow> npfloat" where
  "ghz_to_meep f_ghz = fdiv f_ghz (Fin 300)"

definition meep_to_ghz :: "npfloat \<Rightarrow> npfloat" where
  "meep_to_ghz f_meep = fmul f_meep (Fin 300)"

subsection \<open>Geometry\<close>

text \<open>
  The exceptions of the model: the one of \<^verbatim>\<open>os.makedirs\<close> and the one the solver
  library's constructors raise. \<open>InvalidGeometry\<close> and \<open>MonitorGridMismatch\<close> are the names
  the specification gives to two failures; no statement of the source raises them, so no
  definition below returns them.
\<close>

datatype error = OSError | ValueError | InvalidGeometry | MonitorGridMismatch

record vector3 =
  vx :: real
  vy :: real
  vz :: real

definition Vector3 :: "real \<Rightarrow> real \<Rightarrow> real \<Rightarrow> vector3" where
  "Vector3 x y z = \<lparr> vx = x, vy = y, vz = z \<rparr>"

text \<open>
  The materials the two scripts use: \<^verbatim>\<open>mp.metal\<close> (the script's \<^verbatim>\<open>copper\<close>),
  \<^verbatim>\<open>mp.air\<close> and \<^verbatim>\<open>mp.Medium(epsilon=e)\<close>.
\<close>

datatype material = Metal | Air | Medium real

definition copper :: material where
  "copper = Metal"

definition fr4 :: material where
  "fr4 = Medium 4.4"

text \<open>
  The primitives, with the keyword arguments the scripts pass. The axis of a cylinder is
  \<open>None\<close> where a script leaves it to the solver's default.
\<close>

datatype geometric_object =
    Block vector3 vector3 material
  | Cylinder vector3 real real "vector3 option" material

text \<open>
  The constructors of the solver library (\<^verbatim>\<open>meep\<close>, not part of the repository), as the
  library behaves: \<^verbatim>\<open>mp.Block(center, size, material)\<close> checks nothing;
  \<^verbatim>\<open>mp.Cylinder(center, radius, height, [axis,] material)\<close> sets the radius and then
  the height through setters that raise \<^verbatim>\<open>ValueError\<close> for a negative value and accept
  zero.
\<close>

definition mp_Block :: "vector3 \<Rightarrow> vector3 \<Rightarrow> material \<Rightarrow> error + geometric_object" where
  "mp_Block c s m = Inr (Block c s m)"

definition mp_Cylinder ::
  "vector3 \<Rightarrow> real \<Rightarrow> real \<Rightarrow> vector3 option \<Rightarrow> material \<Rightarrow> error + geometric_object" where
  "mp_Cylinder c r h a m =
     (if r < 0 then Inl ValueError
      else if h < 0 then Inl ValueError
      else Inr (Cylinder c r h a m))"

fun is_cylinder :: "geometric_object \<Rightarrow> bool" where
  "is_cylinder (Cylinder c r h a m) = True"
| "is_cylinder (Block c s m) = False"

fun obj_material :: "geometric_object \<Rightarrow> material" where
  "obj_material (Block c s m) = m"
| "obj_material (Cylinder c r h a m) = m"

fun obj_center :: "geometric_object \<Rightarrow> vector3" where
  "obj_center (Block c s m) = c"
| "obj_center (Cylinder c r h a m) = c"

text \<open>The extents of a primitive: the three sides of a block, radius and height of a cylinder.\<close>

fun extents :: "geometric_object \<Rightarrow> real list" where
  "extents (Block c s m) = [vx s, vy s, vz s]"
| "extents (Cylinder c r h a m) = [r, h]"

fun cyl_height :: "geometric_object \<Rightarrow> real option" where
  "cyl_height (Cylinder c r h a m) = Some h"
| "cyl_height (Block c s m) = None"

text \<open>
  \<^verbatim>\<open>build_geometry(cfg)\<close> of \<^verbatim>\<open>examples/meep/bridge_gap_resonator.py\<close>: five
  \<^verbatim>\<open>geometry.append\<close> calls, in this order. The function has no branch and no
  \<^verbatim>\<open>raise\<close> of its own; an exception of a constructor ends it. The float sum or
  difference of two finite floats has the sign of the exact one, so the constructors
  raise for the same configurations as with the script's floats.
\<close>

definition build_geometry :: "config \<Rightarrow> error + geometric_object list" where
  "build_geometry cfg =
    (let geometry = [];
         left_pad_center = Vector3 (- gap cfg / 2 - pad_length cfg / 2) 0 (bridge_t cfg / 2)
     in case mp_Block left_pad_center
               (Vector3 (pad_length cfg) (bridge_w cfg) (bridge_t cfg)) copper of
          Inl e \<Rightarrow> Inl e
        | Inr left_pad \<Rightarrow>
    (let geometry = geometry @ [left_pad];
         right_pad_center = Vector3 (gap cfg / 2 + pad_length cfg / 2) 0 (bridge_t cfg / 2)
     in case mp_Block right_pad_center
               (Vector3 (pad_length cfg) (bridge_w cfg) (bridge_t cfg)) copper of
          Inl e \<Rightarrow> Inl e
        | Inr right_pad \<Rightarrow>
    (let geometry = geometry @ [right_pad];
         bridge_width = gap cfg + 4 * MM_TO_UM;
         bridge_height = bridge_t cfg * 0.5;
         bridge_y_size = bridge_w cfg * 0.6
     in case mp_Block (Vector3 0 0 (bridge_t cfg * 1.25))
               (Vector3 bridge_width bridge_y_size bridge_height) copper of
          Inl e \<Rightarrow> Inl e
        | Inr bridge \<Rightarrow>
    (let geometry = geometry @ [bridge]
     in case mp_Cylinder (Vector3 0 0 (- substrate_h cfg / 2))
               (substrate_r cfg) (substrate_h cfg) None fr4 of
          Inl e \<Rightarrow> Inl e
        | Inr tube_outer \<Rightarrow>
    (let geometry = geometry @ [tube_outer]
     in case mp_Cylinder (Vector3 0 0 (- substrate_h cfg / 2))
               (substrate_r cfg - wall_thickness cfg) (substrate_h cfg + 100) None Air of
          Inl e \<Rightarrow> Inl e
        | Inr tube_inner \<Rightarrow>
    (let geometry = geometry @ [tube_inner]
     in Inr geometry))))))"

text \<open>
  \<^verbatim>\<open>build_geometry()\<close> of the generated script
  \<^verbatim>\<open>crates/meep-export/examples/bridge_gap_resonator_meep.py\<close>: the same five parts
  with their numbers written out.
\<close>

definition build_geometry_export :: "error + geometric_object list" where
  "build_geometry_export =
    (let geometry = []
     in case mp_Block (Vector3 (-13750) 0 250) (Vector3 25000 8000 500) Metal of
          Inl e \<Rightarrow> Inl e
        | Inr left_pad \<Rightarrow>
    (let geometry = geometry @ [left_pad]
     in case mp_Block (Vector3 13750 0 250) (Vector3 25000 8000 500) Metal of
          Inl e \<Rightarrow> Inl e
        | Inr right_pad \<Rightarrow>
    (let geometry = geometry @ [right_pad]
     in case mp_Block (Vector3 0 0 625) (Vector3 6500 4800 250) Metal of
          Inl e \<Rightarrow> Inl e
        | Inr bridge \<Rightarrow>
    (let geometry = geometry @ [bridge]
     in case mp_Cylinder (Vector3 0 0 0) 15000 9600 (Some (Vector3 0 0 1)) (Medium 4.4) of
          Inl e \<Rightarrow> Inl e
        | Inr tube_outer \<Rightarrow>
    (let geometry = geometry @ [tube_outer]
     in case mp_Cylinder (Vector3 0 0 0) 13000 10000 (Some (Vector3 0 0 1)) Air of
          Inl e \<Rightarrow> Inl e
        | Inr tube_inner \<Rightarrow>
    (let geometry = geometry @ [tube_inner]
     in Inr geometry))))))"

subsection \<open>The S-parameter arithmetic\<close>

text \<open>
  The four list comprehensions of \<^verbatim>\<open>run_simulation\<close>:

  \<^verbatim>\<open>s11 = [-r / i if i != 0 else 0 for r, i in zip(refl_flux, incident_flux)]\<close>

  \<^verbatim>\<open>s11_db = [10 * np.log10(abs(s)) if s != 0 else -100 for s in s11]\<close>

  \<^verbatim>\<open>s21 = [t / i if i != 0 else 0 for t, i in zip(trans_flux, incident_flux)]\<close>

  \<^verbatim>\<open>s21_db = [10 * np.log10(abs(s)) if s != 0 else -100 for s in s21]\<close>

  Python's \<^verbatim>\<open>zip\<close> stops at the shorter list, as \<open>zip\<close> does. A float is
  \<^verbatim>\<open>!= 0\<close> unless it is a zero: infinities and not-a-number are.
\<close>

definition s11 :: "npfloat list \<Rightarrow> npfloat list \<Rightarrow> npfloat list" where
  "s11 refl_flux incident_flux =
     map (\<lambda>(r, i). if i \<noteq> Fin 0 then fdiv (fneg r) i else Fin 0)
       (zip refl_flux incident_flux)"

definition s11_db :: "npfloat list \<Rightarrow> npfloat list" where
  "s11_db ss =
     map (\<lambda>s. if s \<noteq> Fin 0 then fmul (Fin 10) (np_log10 (fabs s)) else Fin (- 100)) ss"

definition s21 :: "npfloat list \<Rightarrow> npfloat list \<Rightarrow> npfloat list" where
  "s21 trans_flux incident_flux =
     map (\<lambda>(t, i). if i \<noteq> Fin 0 then fdiv t i else Fin 0)
       (zip trans_flux incident_flux)"

definition s21_db :: "npfloat list \<Rightarrow> npfloat list" where
  "s21_db ss =
     map (\<lambda>s. if s \<noteq> Fin 0 then fmul (Fin 10) (np_log10 (fabs s)) else Fin (- 100)) ss"

subsection \<open>The solver boundary\<close>

text \<open>
  The field solver (the \<^verbatim>\<open>meep\<close> library) is not part of the repository. The model
  keeps what the script hands to it and takes what it returns from a record of functions,
  \<open>solver\<close>, which every definition below receives as a parameter.
\<close>

datatype component = Ez

text \<open>
  \<^verbatim>\<open>mp.Source(src=mp.GaussianSource(fcen, fwidth=fwidth), component, center, size)\<close>
\<close>

record source =
  src_fcen :: npfloat
  src_fwidth :: npfloat
  src_component :: component
  src_center :: vector3
  src_size :: vector3

text \<open>
  The arguments of one \<^verbatim>\<open>sim.add_flux(fcen, fwidth, nfreq, mp.FluxRegion(center, size))\<close>.
\<close>

record flux_spec =
  fs_fcen :: npfloat
  fs_fwidth :: npfloat
  fs_nfreq :: nat
  fs_center :: vector3
  fs_size :: vector3

text \<open>\<^verbatim>\<open>mp.stop_when_fields_decayed(dt, c, pt, decay_by)\<close>\<close>

datatype stop_cond = stop_when_fields_decayed real component vector3 real

text \<open>
  The step functions of the main run: \<^verbatim>\<open>mp.at_every(1, capture_field)\<close>, whose closure
  reads the field at a point, and
  \<^verbatim>\<open>mp.at_every(slice_interval, mp.in_volume(mp.Volume(center, size), mp.output_efield_z))\<close>.
\<close>

datatype step_action = capture_field vector3 | output_efield_z_in_volume vector3 vector3

datatype step_func = at_every real step_action

text \<open>
  Where a simulation object stands: configured and not yet run, time-stepped (for a number
  of solver steps after the sources), or reset by \<^verbatim>\<open>sim.reset_meep()\<close>.
\<close>

datatype sim_phase = Configured | Stepped nat | WasReset

text \<open>
  A \<^verbatim>\<open>mp.Simulation\<close> object: the constructor's arguments, the flux monitors added to
  it (a monitor's handle is its position in \<open>dft_fluxes\<close>), the flux data loaded with a
  minus sign, and its phase. \<open>'fd\<close> is the solver's flux-data blob, opaque to the script.
\<close>

record 'fd simulation =
  cell_size :: vector3
  geometry :: "geometric_object list"
  sources :: "source list"
  boundary_layers :: "real list"
  sim_resolution :: real
  default_material :: material
  dft_fluxes :: "flux_spec list"
  minus_flux_data :: "(nat \<times> 'fd) list"
  phase :: sim_phase

text \<open>
  What the script asks of its environment:
  \<^item> \<open>makedirs_ok dir\<close>: \<^verbatim>\<open>os.makedirs(dir, exist_ok=True)\<close> succeeds;
  \<^item> \<open>stop_now sim cond n\<close>: the stopping predicate \<open>cond\<close> answers true at step \<open>n\<close>
    (counted from the end of the sources) of a run of \<open>sim\<close>;
  \<^item> \<open>get_fluxes sim h\<close>: \<^verbatim>\<open>mp.get_fluxes\<close> of monitor \<open>h\<close> of \<open>sim\<close>;
  \<^item> \<open>get_flux_freqs fcen fwidth nfreq\<close>: \<^verbatim>\<open>mp.get_flux_freqs\<close> of a monitor with
    these frequency parameters;
  \<^item> \<open>get_flux_data sim h\<close>: \<^verbatim>\<open>sim.get_flux_data\<close> of monitor \<open>h\<close>;
  \<^item> \<open>field_trace sim pt\<close>: the pairs of \<^verbatim>\<open>sim.meep_time()\<close> and
    \<^verbatim>\<open>sim.get_field_point(mp.Ez, pt)\<close> that \<^verbatim>\<open>capture_field\<close> saw during the run.
\<close>

record 'fd solver =
  makedirs_ok :: "string \<Rightarrow> bool"
  stop_now :: "'fd simulation \<Rightarrow> stop_cond \<Rightarrow> nat \<Rightarrow> bool"
  get_fluxes :: "'fd simulation \<Rightarrow> nat \<Rightarrow> npfloat list"
  get_flux_freqs :: "npfloat \<Rightarrow> npfloat \<Rightarrow> nat \<Rightarrow> npfloat list"
  get_flux_data :: "'fd simulation \<Rightarrow> nat \<Rightarrow> 'fd"
  field_trace :: "'fd simulation \<Rightarrow> vector3 \<Rightarrow> (real \<times> complex) list"

text \<open>
  \<^verbatim>\<open>sim.run(..., until_after_sources=cond)\<close>: the solver steps until the stopping
  predicate answers true. The script passes no other bound, so the loop has none: where
  the predicate never answers true the call does not return, which is the value \<open>None\<close>.
\<close>

partial_function (option) run_until :: "(nat \<Rightarrow> bool) \<Rightarrow> nat \<Rightarrow> nat option" where
  "run_until stop n = (if stop n then Some n else run_until stop (Suc n))"

definition sim_run :: "'fd solver \<Rightarrow> 'fd simulation \<Rightarrow> stop_cond \<Rightarrow> 'fd simulation option" where
  "sim_run slv sim cond =
     map_option (\<lambda>n. sim\<lparr>phase := Stepped n\<rparr>) (run_until (stop_now slv sim cond) 0)"

definition add_flux :: "'fd simulation \<Rightarrow> flux_spec \<Rightarrow> 'fd simulation \<times> nat" where
  "add_flux sim fs = (sim\<lparr>dft_fluxes := dft_fluxes sim @ [fs]\<rparr>, length (dft_fluxes sim))"

definition load_minus_flux_data :: "'fd simulation \<Rightarrow> nat \<Rightarrow> 'fd \<Rightarrow> 'fd simulation" where
  "load_minus_flux_data sim h d = sim\<lparr>minus_flux_data := minus_flux_data sim @ [(h, d)]\<rparr>"

definition reset_meep :: "'fd simulation \<Rightarrow> 'fd simulation" where
  "reset_meep sim = sim\<lparr>phase := WasReset\<rparr>"

subsection \<open>Simulation setup\<close>

text \<open>
  \<^verbatim>\<open>create_simulation(cfg, output_dir)\<close>: returns \<^verbatim>\<open>(sim, fcen, fwidth)\<close>. The
  argument \<^verbatim>\<open>output_dir\<close> is not used by its body. An exception of
  \<^verbatim>\<open>build_geometry\<close> ends it.
\<close>

definition create_simulation :: "config \<Rightarrow> error + ('fd simulation \<times> npfloat \<times> npfloat)" where
  "create_simulation cfg =
    (let pml = pml_thickness cfg;
         cell_x = 2 * (pad_length cfg + gap cfg / 2) + 2 * pml + 4000;
         cell_y = max (bridge_w cfg) (2 * substrate_r cfg) + 2 * pml + 4000;
         cell_z = substrate_h cfg + bridge_t cfg * 2 + 2 * pml + 4000;
         cell = Vector3 cell_x cell_y cell_z
     in case build_geometry cfg of
          Inl e \<Rightarrow> Inl e
        | Inr geom \<Rightarrow>
           (let fcen = ghz_to_meep (Fin (freq_center_ghz cfg));
                fwidth = ghz_to_meep (Fin (freq_width_ghz cfg));
                srcs = [\<lparr> src_fcen = fcen, src_fwidth = fwidth, src_component = Ez,
                          src_center = Vector3 0 0 (bridge_t cfg / 2),
                          src_size = Vector3 (gap cfg * 0.8) (bridge_w cfg * 0.5) 0 \<rparr>];
                pml_layers = [pml];
                sim = \<lparr> cell_size = cell, geometry = geom, sources = srcs,
                        boundary_layers = pml_layers, sim_resolution = resolution cfg,
                        default_material = Air, dft_fluxes = [], minus_flux_data = [],
                        phase = Configured \<rparr>
            in Inr (sim, fcen, fwidth)))"

text \<open>The \<^verbatim>\<open>monitors\<close> dictionary of \<^verbatim>\<open>setup_monitors\<close>: its two keys.\<close>

record monitors =
  refl :: nat
  trans :: nat

text \<open>\<^verbatim>\<open>setup_monitors(sim, cfg, fcen, fwidth)\<close>: mutates \<^verbatim>\<open>sim\<close>, returns the handles.\<close>

definition setup_monitors ::
  "'fd simulation \<Rightarrow> config \<Rightarrow> npfloat \<Rightarrow> npfloat \<Rightarrow> 'fd simulation \<times> monitors" where
  "setup_monitors sim cfg fcen fwidth =
    (let (sim, h_refl) = add_flux sim
            \<lparr> fs_fcen = fcen, fs_fwidth = fwidth, fs_nfreq = 50,
              fs_center = Vector3 (- gap cfg / 2 - 1000) 0 (bridge_t cfg / 2),
              fs_size = Vector3 0 (bridge_w cfg) (bridge_t cfg * 3) \<rparr>;
         (sim, h_trans) = add_flux sim
            \<lparr> fs_fcen = fcen, fs_fwidth = fwidth, fs_nfreq = 50,
              fs_center = Vector3 (gap cfg / 2 + 1000) 0 (bridge_t cfg / 2),
              fs_size = Vector3 0 (bridge_w cfg) (bridge_t cfg * 3) \<rparr>
     in (sim, \<lparr> refl = h_refl, trans = h_trans \<rparr>))"

subsection \<open>The two runs\<close>

text \<open>The arrays \<^verbatim>\<open>run_simulation\<close> saves and returns.\<close>

record results =
  freqs_ghz :: "npfloat list"
  s11_db_out :: "npfloat list"
  s21_db_out :: "npfloat list"
  field_t :: "real list"
  field_ez :: "real list"

text \<open>How a call ends: it returns, it raises, or it does not come back.\<close>

datatype 'a outcome = Returned 'a | Raised error | Diverged

datatype run_site = InRunReference | InRunSimulation

text \<open>
  The trace of a pipeline execution: the solver and file-system calls that have an effect,
  in program order. A run is two events, its call and its return.
\<close>

datatype 'fd event =
    Makedirs string
  | RunStart run_site "'fd simulation" "step_func list" stop_cond
  | RunEnd run_site nat
  | ResetMeep
  | GetFluxData nat 'fd
  | LoadMinusFluxData nat 'fd
  | Savez string results
  | PlotResults

fun steps_of :: "'fd simulation \<Rightarrow> nat" where
  "steps_of sim = (case phase sim of Stepped n \<Rightarrow> n | _ \<Rightarrow> 0)"

text \<open>
  \<^verbatim>\<open>run_reference(cfg, output_dir)\<close>: the run without geometry. The fluxes and the
  frequencies are read from the simulation as the run left it; then comes
  \<^verbatim>\<open>sim.reset_meep()\<close>, and only in the \<^verbatim>\<open>return\<close> statement
  \<^verbatim>\<open>sim.get_flux_data(refl_fr)\<close>, on the simulation that has been reset. The model
  threads the trace.
\<close>

definition run_reference ::
  "'fd solver \<Rightarrow> config \<Rightarrow> string \<Rightarrow> 'fd event list
     \<Rightarrow> 'fd event list \<times> (npfloat list \<times> npfloat list \<times> 'fd) outcome" where
  "run_reference slv cfg output_dir trace =
    (case create_simulation cfg of
       Inl e \<Rightarrow> (trace, Raised e)
     | Inr (sim, fcen, fwidth) \<Rightarrow>
    (let sim = sim\<lparr>geometry := []\<rparr>;
         (sim, refl_fr) = add_flux sim
            \<lparr> fs_fcen = fcen, fs_fwidth = fwidth, fs_nfreq = 50,
              fs_center = Vector3 (- gap cfg / 2 - 1000) 0 (bridge_t cfg / 2),
              fs_size = Vector3 0 (bridge_w cfg) (bridge_t cfg * 3) \<rparr>;
         cond = stop_when_fields_decayed 50 Ez (Vector3 0 0 (bridge_t cfg / 2)) (1 / 10 ^ 6);
         trace = trace @ [RunStart InRunReference sim [] cond]
     in case sim_run slv sim cond of
          None \<Rightarrow> (trace, Diverged)
        | Some sim \<Rightarrow>
           (let trace = trace @ [RunEnd InRunReference (steps_of sim)];
                incident_flux = get_fluxes slv sim refl_fr;
                freqs = get_flux_freqs slv fcen fwidth 50;
                sim = reset_meep sim;
                trace = trace @ [ResetMeep];
                flux_data = get_flux_data slv sim refl_fr;
                trace = trace @ [GetFluxData refl_fr flux_data]
            in (trace, Returned (freqs, incident_flux, flux_data)))))"

text \<open>
  \<^verbatim>\<open>run_simulation(cfg, output_dir, plot)\<close>: the whole pipeline. The \<^verbatim>\<open>print\<close>
  calls are left out. The result is the trace and how the call ended.
\<close>

definition run_simulation ::
  "'fd solver \<Rightarrow> config \<Rightarrow> string \<Rightarrow> bool \<Rightarrow> 'fd event list \<times> results outcome" where
  "run_simulation slv cfg output_dir plot =
    (if \<not> makedirs_ok slv output_dir then ([], Raised OSError)
     else
       case run_reference slv cfg output_dir [Makedirs output_dir] of
         (trace, Diverged) \<Rightarrow> (trace, Diverged)
       | (trace, Raised e) \<Rightarrow> (trace, Raised e)
       | (trace, Returned (freqs, incident_flux, refl_data)) \<Rightarrow>
      (case create_simulation cfg of
         Inl e \<Rightarrow> (trace, Raised e)
       | Inr (sim, fcen, fwidth) \<Rightarrow>
          (let (sim, mons) = setup_monitors sim cfg fcen fwidth;
               sim = load_minus_flux_data sim (refl mons) refl_data;
               trace = trace @ [LoadMinusFluxData (refl mons) refl_data];
               probe = Vector3 0 0 (bridge_t cfg / 2);
               slice_interval = 20;
               step_funcs = [at_every 1 (capture_field probe),
                             at_every slice_interval
                               (output_efield_z_in_volume probe (Vector3 60000 30000 0))];
               cond = stop_when_fields_decayed 50 Ez probe (1 / 10 ^ 6);
               trace = trace @ [RunStart InRunSimulation sim step_funcs cond]
           in case sim_run slv sim cond of
                None \<Rightarrow> (trace, Diverged)
              | Some sim \<Rightarrow>
                 (let trace = trace @ [RunEnd InRunSimulation (steps_of sim)];
                      field_data = field_trace slv sim probe;
                      refl_flux = get_fluxes slv sim (refl mons);
                      trans_flux = get_fluxes slv sim (trans mons);
                      res = \<lparr> freqs_ghz = map meep_to_ghz freqs,
                              s11_db_out = s11_db (s11 refl_flux incident_flux),
                              s21_db_out = s21_db (s21 trans_flux incident_flux),
                              field_t = map fst field_data,
                              field_ez = map (\<lambda>e. Re (snd e)) field_data \<rparr>;
                      trace = trace @ [Savez (output_dir @ ''/results.npz'') res];
                      trace = (if plot then trace @ [PlotResults] else trace)
                  in (trace, Returned res)))))"

subsection \<open>Notions used in the statements\<close>

text \<open>
  The configurations whose two cylinders the library constructs, and the list the
  constructors then give.
\<close>

definition constructible :: "config \<Rightarrow> bool" where
  "constructible cfg \<longleftrightarrow>
     0 \<le> substrate_r cfg \<and> 0 \<le> substrate_h cfg \<and> wall_thickness cfg \<le> substrate_r cfg"

definition geometry_list :: "config \<Rightarrow> geometric_object list" where
  "geometry_list cfg =
     [Block (Vector3 (- gap cfg / 2 - pad_length cfg / 2) 0 (bridge_t cfg / 2))
        (Vector3 (pad_length cfg) (bridge_w cfg) (bridge_t cfg)) copper,
      Block (Vector3 (gap cfg / 2 + pad_length cfg / 2) 0 (bridge_t cfg / 2))
        (Vector3 (pad_length cfg) (bridge_w cfg) (bridge_t cfg)) copper,
      Block (Vector3 0 0 (bridge_t cfg * 1.25))
        (Vector3 (gap cfg + 4 * MM_TO_UM) (bridge_w cfg * 0.6) (bridge_t cfg * 0.5)) copper,
      Cylinder (Vector3 0 0 (- substrate_h cfg / 2)) (substrate_r cfg) (substrate_h cfg)
        None fr4,
      Cylinder (Vector3 0 0 (- substrate_h cfg / 2)) (substrate_r cfg - wall_thickness cfg)
        (substrate_h cfg + 100) None Air]"

text \<open>
  The stopping predicate both runs pass to \<^verbatim>\<open>sim.run\<close>; the description of the
  reflection monitor; the simulation object \<^verbatim>\<open>create_simulation\<close> builds around a
  geometry list; the simulation object as it stands when \<^verbatim>\<open>run_reference\<close> calls
  \<^verbatim>\<open>sim.run\<close>; the flux data \<^verbatim>\<open>run_reference\<close> returns when its run took \<open>n\<close>
  steps; the simulation object as it stands when \<^verbatim>\<open>run_simulation\<close> calls
  \<^verbatim>\<open>sim.run\<close>; and the results of a pipeline whose runs took \<open>n\<close> and \<open>m\<close> steps. The
  lemmas \<open>create_simulation_unfold\<close>, \<open>run_reference_unfold\<close> and \<open>run_simulation_unfold\<close>
  below show that these are the terms the functions compute.
\<close>

definition decay_cond :: "config \<Rightarrow> stop_cond" where
  "decay_cond cfg = stop_when_fields_decayed 50 Ez (Vector3 0 0 (bridge_t cfg / 2)) (1 / 10 ^ 6)"

definition refl_spec :: "config \<Rightarrow> flux_spec" where
  "refl_spec cfg =
     \<lparr> fs_fcen = ghz_to_meep (Fin (freq_center_ghz cfg)),
       fs_fwidth = ghz_to_meep (Fin (freq_width_ghz cfg)), fs_nfreq = 50,
       fs_center = Vector3 (- gap cfg / 2 - 1000) 0 (bridge_t cfg / 2),
       fs_size = Vector3 0 (bridge_w cfg) (bridge_t cfg * 3) \<rparr>"

definition base_sim :: "config \<Rightarrow> geometric_object list \<Rightarrow> 'fd simulation" where
  "base_sim cfg geom =
     \<lparr> cell_size = Vector3 (2 * (pad_length cfg + gap cfg / 2) + 2 * pml_thickness cfg + 4000)
                     (max (bridge_w cfg) (2 * substrate_r cfg) + 2 * pml_thickness cfg + 4000)
                     (substrate_h cfg + bridge_t cfg * 2 + 2 * pml_thickness cfg + 4000),
       geometry = geom,
       sources = [\<lparr> src_fcen = ghz_to_meep (Fin (freq_center_ghz cfg)),
                    src_fwidth = ghz_to_meep (Fin (freq_width_ghz cfg)), src_component = Ez,
                    src_center = Vector3 0 0 (bridge_t cfg / 2),
                    src_size = Vector3 (gap cfg * 0.8) (bridge_w cfg * 0.5) 0 \<rparr>],
       boundary_layers = [pml_thickness cfg], sim_resolution = resolution cfg,
       default_material = Air, dft_fluxes = [], minus_flux_data = [],
       phase = Configured \<rparr>"

definition reference_sim :: "config \<Rightarrow> 'fd simulation" where
  "reference_sim cfg = fst (add_flux (base_sim cfg []) (refl_spec cfg))"

definition reference_data :: "'fd solver \<Rightarrow> config \<Rightarrow> nat \<Rightarrow> 'fd" where
  "reference_data slv cfg n =
     get_flux_data slv (reset_meep ((reference_sim cfg)\<lparr>phase := Stepped n\<rparr>)) 0"

definition main_sim :: "config \<Rightarrow> 'fd \<Rightarrow> 'fd simulation" where
  "main_sim cfg d =
     (case setup_monitors (base_sim cfg (geometry_list cfg)) cfg
             (ghz_to_meep (Fin (freq_center_ghz cfg)))
             (ghz_to_meep (Fin (freq_width_ghz cfg))) of
        (sim, mons) \<Rightarrow> load_minus_flux_data sim (refl mons) d)"

definition main_step_funcs :: "config \<Rightarrow> step_func list" where
  "main_step_funcs cfg =
     [at_every 1 (capture_field (Vector3 0 0 (bridge_t cfg / 2))),
      at_every 20 (output_efield_z_in_volume (Vector3 0 0 (bridge_t cfg / 2))
                     (Vector3 60000 30000 0))]"

definition main_results :: "'fd solver \<Rightarrow> config \<Rightarrow> nat \<Rightarrow> nat \<Rightarrow> results" where
  "main_results slv cfg n m =
    (let sim = (main_sim cfg (reference_data slv cfg n))\<lparr>phase := Stepped m\<rparr>;
         incident_flux = get_fluxes slv ((reference_sim cfg)\<lparr>phase := Stepped n\<rparr>) 0;
         field_data = field_trace slv sim (Vector3 0 0 (bridge_t cfg / 2))
     in \<lparr> freqs_ghz = map meep_to_ghz
                (get_flux_freqs slv (ghz_to_meep (Fin (freq_center_ghz cfg)))
                   (ghz_to_meep (Fin (freq_width_ghz cfg))) 50),
          s11_db_out = s11_db (s11 (get_fluxes slv sim 0) incident_flux),
          s21_db_out = s21_db (s21 (get_fluxes slv sim 1) incident_flux),
          field_t = map fst field_data,
          field_ez = map (\<lambda>e. Re (snd e)) field_data \<rparr>)"

text \<open>The events of a trace that start a run at a given call site.\<close>

fun is_run_start :: "run_site \<Rightarrow> 'fd event \<Rightarrow> bool" where
  "is_run_start site (RunStart site' sim fs cond) = (site = site')"
| "is_run_start site _ = False"

subsection \<open>Test fixtures\<close>

text \<open>
  A stub solver with synthetic flux arrays: the run without geometry yields \<open>inc\<close>, the
  main run yields \<open>rf\<close> on its first monitor and \<open>tf\<close> on the others, and the stopping
  predicate answers true from step \<open>n\<close> on when \<open>stop_at = Some n\<close> and never when
  \<open>stop_at = None\<close>. The flux data of a monitor is the incident array while the
  simulation stands as a run left it, and empty before a run and after a reset, as in the
  library, whose \<^verbatim>\<open>reset_meep\<close> deletes the fields and what they accumulated.
\<close>

definition stub_freqs :: "npfloat \<Rightarrow> npfloat \<Rightarrow> nat \<Rightarrow> npfloat list" where
  "stub_freqs fcen fwidth nfreq = replicate nfreq fcen"

definition stub_solver ::
  "npfloat list \<Rightarrow> npfloat list \<Rightarrow> npfloat list \<Rightarrow> nat option \<Rightarrow> (npfloat list) solver" where
  "stub_solver inc rf tf stop_at =
     \<lparr> makedirs_ok = (\<lambda>d. True),
       stop_now = (\<lambda>sim cond k. case stop_at of None \<Rightarrow> False | Some n \<Rightarrow> n \<le> k),
       get_fluxes = (\<lambda>sim h. if geometry sim = [] then inc else if h = 0 then rf else tf),
       get_flux_freqs = stub_freqs,
       get_flux_data =
         (\<lambda>sim h. case phase sim of Stepped n \<Rightarrow> inc | Configured \<Rightarrow> [] | WasReset \<Rightarrow> []),
       field_trace = (\<lambda>sim pt. []) \<rparr>"

text \<open>The script's configuration with the pad length set to zero.\<close>

definition zero_pad_config :: config where
  "zero_pad_config = default_config\<lparr>pad_length := 0\<rparr>"

text \<open>The script's configuration with a wall thicker than the radius of the tube.\<close>

definition thick_wall_config :: config where
  "thick_wall_config = default_config\<lparr>wall_thickness := 16 * MM_TO_UM\<rparr>"

section \<open>Properties\<close>

subsection \<open>Rounding\<close>

text \<open>
  The integer rounding is within one half of its argument, and the rounding to a double
  is exact on the doubles, has a relative error of at most \<open>2\<^sup>-\<^sup>5\<^sup>3\<close> in the normal
  range, rounds to a multiple of \<open>2\<^sup>-\<^sup>1\<^sup>0\<^sup>7\<^sup>4\<close> below it and gives an infinity from
  \<open>2\<^sup>1\<^sup>0\<^sup>2\<^sup>4\<close> on.
\<close>

lemma round_even_int: "round_even (of_int n) = n"
  by (simp add: round_even_def)

lemma round_even_err: "\<bar>of_int (round_even y) - y\<bar> \<le> 1 / 2"
proof -
  have "of_int \<lfloor>y\<rfloor> \<le> y" "y < of_int \<lfloor>y\<rfloor> + 1" by linarith+
  then show ?thesis
    by (auto simp add: round_even_def abs_le_iff)
qed

lemma round_even_near:
  assumes "\<bar>y - of_int n\<bar> < 1 / 2"
  shows "round_even y = n"
proof -
  have f: "of_int \<lfloor>y\<rfloor> \<le> y" "y < of_int \<lfloor>y\<rfloor> + 1" by linarith+
  from assms have a: "y < of_int n + 1 / 2" "of_int n - 1 / 2 < y" by linarith+
  have "\<lfloor>y\<rfloor> = n \<or> \<lfloor>y\<rfloor> = n - 1"
  proof -
    from a f have "of_int \<lfloor>y\<rfloor> < (of_int n :: real) + 1 / 2" by linarith
    then have "of_int \<lfloor>y\<rfloor> < (of_int (n + 1) :: real)" by simp
    then have u: "\<lfloor>y\<rfloor> < n + 1" by (simp only: of_int_less_iff)
    from a f have "(of_int n :: real) - 3 / 2 < of_int \<lfloor>y\<rfloor>" by linarith
    then have "(of_int (n - 2) :: real) < of_int \<lfloor>y\<rfloor>" by simp
    then have "n - 2 < \<lfloor>y\<rfloor>" by (simp only: of_int_less_iff)
    with u show ?thesis by linarith
  qed
  then show ?thesis
  proof
    assume e: "\<lfloor>y\<rfloor> = n"
    with a show ?thesis by (simp add: round_even_def)
  next
    assume e: "\<lfloor>y\<rfloor> = n - 1"
    with a have "1 / 2 < y - of_int \<lfloor>y\<rfloor>" by simp
    with e show ?thesis by (simp add: round_even_def)
  qed
qed

lemma floor_log2_bounds:
  assumes "0 < x"
  shows "2 powr of_int \<lfloor>log 2 x\<rfloor> \<le> x" and "x < 2 powr (of_int \<lfloor>log 2 x\<rfloor> + 1)"
proof -
  have "of_int \<lfloor>log 2 x\<rfloor> \<le> log 2 x" by simp
  then have "2 powr of_int \<lfloor>log 2 x\<rfloor> \<le> 2 powr log 2 x" by simp
  then show "2 powr of_int \<lfloor>log 2 x\<rfloor> \<le> x" using assms by simp
  have "log 2 x < of_int \<lfloor>log 2 x\<rfloor> + 1" by linarith
  then have "2 powr log 2 x < 2 powr (of_int \<lfloor>log 2 x\<rfloor> + 1)" by simp
  then show "x < 2 powr (of_int \<lfloor>log 2 x\<rfloor> + 1)" using assms by simp
qed

lemma floor_log2_eq:
  assumes "2 powr of_int e \<le> x" and "x < 2 powr (of_int e + 1)"
  shows "\<lfloor>log 2 x\<rfloor> = e"
proof -
  have x0: "0 < x" using assms(1) by (smt (verit) powr_gt_zero)
  have "log 2 (2 powr of_int e) \<le> log 2 x"
    using assms(1) x0 by (simp del: log_powr_cancel)
  then have a: "of_int e \<le> log 2 x" by simp
  have "log 2 x < log 2 (2 powr (of_int e + 1))"
    using assms(2) x0 by (simp del: log_powr_cancel)
  then have b: "log 2 x < of_int e + 1" by simp
  from a b show ?thesis by linarith
qed

lemma round_to_double_0: "round_to_double 0 = Fin 0"
  by (simp add: round_to_double_def round_even_def)

lemma ulp_exponent_subnormal:
  assumes "x \<noteq> 0" and "\<bar>x\<bar> < 2 powr (- 1022)"
  shows "ulp_exponent x = - 1074"
proof -
  have "0 < \<bar>x\<bar>" using assms by simp
  from floor_log2_bounds(1)[OF this] assms(2)
  have "2 powr of_int \<lfloor>log 2 \<bar>x\<bar>\<rfloor> < (2 :: real) powr (- 1022)" by linarith
  then have "(of_int \<lfloor>log 2 \<bar>x\<bar>\<rfloor> :: real) < - 1022" by simp
  then have "\<lfloor>log 2 \<bar>x\<bar>\<rfloor> < - 1022" by linarith
  then show ?thesis by (simp add: ulp_exponent_def)
qed

lemma ulp_exponent_normal:
  assumes "2 powr (- 1022) \<le> \<bar>x\<bar>"
  shows "ulp_exponent x = \<lfloor>log 2 \<bar>x\<bar>\<rfloor> - 52"
proof -
  have x0: "0 < \<bar>x\<bar>" using assms by (smt (verit) powr_gt_zero)
  have "log 2 (2 powr (- 1022)) \<le> log 2 \<bar>x\<bar>"
    using assms x0 by (simp del: log_powr_cancel)
  then have "- 1022 \<le> log 2 \<bar>x\<bar>" by simp
  then have "- 1022 \<le> \<lfloor>log 2 \<bar>x\<bar>\<rfloor>" by linarith
  then show ?thesis by (simp add: ulp_exponent_def)
qed

lemma round_to_double_normal:
  assumes lo: "2 powr (- 1022) \<le> \<bar>x\<bar>" and hi: "\<bar>x\<bar> * (1 + 1 / 2 ^ 53) < 2 ^ 1024"
  shows "\<exists>y. round_to_double x = Fin y \<and> \<bar>y - x\<bar> \<le> \<bar>x\<bar> / 2 ^ 53"
proof -
  define e where "e = \<lfloor>log 2 \<bar>x\<bar>\<rfloor>"
  define u :: real where "u = 2 powr of_int (e - 52)"
  define y where "y = u * of_int (round_even (x / u))"
  have x0: "0 < \<bar>x\<bar>" using lo by (smt (verit) powr_gt_zero)
  have ue: "ulp_exponent x = e - 52" using ulp_exponent_normal[OF lo] by (simp add: e_def)
  have u0: "0 < u" by (simp add: u_def)
  have le: "2 powr of_int e \<le> \<bar>x\<bar>" using floor_log2_bounds(1)[OF x0] by (simp add: e_def)
  have "u = 2 powr of_int e / 2 ^ 52"
    by (simp add: u_def powr_diff)
  then have ux: "u \<le> \<bar>x\<bar> / 2 ^ 52" using le by (simp add: divide_right_mono)
  have "\<bar>y - x\<bar> = u * \<bar>of_int (round_even (x / u)) - x / u\<bar>"
  proof -
    have "y - x = u * (of_int (round_even (x / u)) - x / u)"
      using u0 by (simp add: y_def algebra_simps)
    then show ?thesis using u0 by (simp add: abs_mult)
  qed
  also have "\<dots> \<le> u * (1 / 2)"
    using round_even_err[of "x / u"] u0 by (simp add: mult_left_mono)
  also have "\<dots> \<le> \<bar>x\<bar> / 2 ^ 53" using ux by simp
  finally have err: "\<bar>y - x\<bar> \<le> \<bar>x\<bar> / 2 ^ 53" .
  moreover have "\<bar>y\<bar> \<le> \<bar>x\<bar> + \<bar>y - x\<bar>" by linarith
  ultimately have "\<bar>y\<bar> \<le> \<bar>x\<bar> + \<bar>x\<bar> / 2 ^ 53" by linarith
  then have "\<bar>y\<bar> \<le> \<bar>x\<bar> * (1 + 1 / 2 ^ 53)"
    by (simp add: algebra_simps)
  with hi have "\<not> 2 ^ 1024 \<le> \<bar>y\<bar>" by linarith
  then have "round_to_double x = Fin y"
    by (simp add: round_to_double_def ue Let_def y_def u_def)
  with err show ?thesis by blast
qed

lemma round_to_double_subnormal:
  assumes "x \<noteq> 0" and "\<bar>x\<bar> < 2 powr (- 1022)"
  shows "round_to_double x = Fin (of_int (round_even (x * 2 ^ 1074)) / 2 ^ 1074)"
proof -
  have ue: "ulp_exponent x = - 1074" using ulp_exponent_subnormal[OF assms] .
  have u: "2 powr (- 1074) = (1 / 2 ^ 1074 :: real)"
    by (simp add: powr_minus_divide)
  have "\<bar>of_int (round_even (x * 2 ^ 1074)) - x * 2 ^ 1074\<bar> \<le> (1 / 2 :: real)"
    by (rule round_even_err)
  then have "\<bar>of_int (round_even (x * 2 ^ 1074))\<bar> \<le> \<bar>x * 2 ^ 1074\<bar> + (1 / 2 :: real)"
    by linarith
  moreover have "\<bar>x * 2 ^ 1074\<bar> < (2 ^ 52 :: real)"
  proof -
    have "2 powr (- 1022) = (1 / 2 ^ 1022 :: real)"
      by (simp add: powr_minus_divide)
    with assms(2) have "\<bar>x\<bar> < 1 / 2 ^ 1022" by simp
    then have "\<bar>x\<bar> * 2 ^ 1074 < 1 / 2 ^ 1022 * (2 ^ 1074 :: real)"
      by (simp only: mult_less_cancel_right_pos zero_less_numeral zero_less_power)
    then show ?thesis by (simp add: abs_mult)
  qed
  ultimately have "\<bar>of_int (round_even (x * 2 ^ 1074)) / 2 ^ 1074 :: real\<bar> < 2 ^ 1024"
    by (simp add: field_simps)
  then show ?thesis
    by (simp add: round_to_double_def ue u Let_def)
qed


lemma round_to_double_binade:
  assumes lo: "2 powr of_int e \<le> \<bar>x\<bar>" and hi: "\<bar>x\<bar> < 2 powr (of_int e + 1)"
    and e: "- 1022 \<le> e"
  shows "ulp_exponent x = e - 52"
proof -
  have "\<lfloor>log 2 \<bar>x\<bar>\<rfloor> = e" using lo hi by (rule floor_log2_eq)
  with e show ?thesis by (simp add: ulp_exponent_def)
qed

lemma round_to_double_dyadic:
  assumes m: "\<bar>m\<bar> < 2 ^ 53" and k: "- 1074 \<le> k"
    and b: "\<bar>of_int m * 2 powr of_int k\<bar> < (2 ^ 1024 :: real)"
  shows "round_to_double (of_int m * 2 powr of_int k) = Fin (of_int m * 2 powr of_int k)"
proof (cases "m = 0")
  case True
  then show ?thesis by (simp add: round_to_double_0)
next
  case False
  define x :: real where "x = of_int m * 2 powr of_int k"
  define q where "q = ulp_exponent x"
  have m1: "1 \<le> \<bar>m\<bar>" using False by linarith
  have am: "0 < \<bar>of_int m :: real\<bar>" using False by simp
  have lm: "log 2 \<bar>x\<bar> = log 2 \<bar>of_int m\<bar> + of_int k"
    using am by (simp add: x_def abs_mult log_mult)
  have "\<bar>of_int m :: real\<bar> < 2 ^ 53" using m by (metis of_int_abs of_int_less_numeral_power_cancel_iff)
  then have "log 2 \<bar>of_int m :: real\<bar> < 53" using am by (subst log_less_iff) simp_all
  then have f1: "\<lfloor>log 2 \<bar>of_int m :: real\<bar>\<rfloor> \<le> 52" by linarith
  have "\<lfloor>log 2 \<bar>x\<bar>\<rfloor> = \<lfloor>log 2 \<bar>of_int m :: real\<bar>\<rfloor> + k" by (simp add: lm)
  with f1 have "\<lfloor>log 2 \<bar>x\<bar>\<rfloor> - 52 \<le> k" by linarith
  with k have qk: "q \<le> k" by (simp add: q_def ulp_exponent_def)
  define d where "d = nat (k - q)"
  have kq: "of_int k = (of_int q :: real) + of_nat d" using qk by (simp add: d_def)
  have "x / 2 powr of_int q = of_int m * 2 ^ d"
    by (simp add: x_def kq powr_add powr_realpow)
  then have "x / 2 powr of_int q = of_int (m * 2 ^ d)" by simp
  then have "round_even (x / 2 powr of_int q) = m * 2 ^ d"
    by (simp only: round_even_int)
  then have "2 powr of_int q * of_int (round_even (x / 2 powr of_int q)) = x"
    by (simp add: x_def kq powr_add powr_realpow)
  with b show ?thesis
    by (simp add: round_to_double_def Let_def q_def[symmetric] x_def[symmetric])
qed

lemma round_to_double_int:
  assumes "\<bar>n\<bar> < 2 ^ 53"
  shows "round_to_double (of_int n) = Fin (of_int n)"
proof -
  have "\<bar>of_int n :: real\<bar> < 2 ^ 53"
    using assms by (metis of_int_abs of_int_less_numeral_power_cancel_iff)
  then have "\<bar>of_int n * 2 powr of_int 0\<bar> < (2 ^ 1024 :: real)"
    by simp
  from round_to_double_dyadic[OF assms _ this] show ?thesis by simp
qed

lemma rd_half: "round_to_double (1 / 2) = Fin (1 / 2)" "round_to_double (- (1 / 2)) = Fin (- (1 / 2))"
  using round_to_double_dyadic[of 1 "- 1"] round_to_double_dyadic[of "- 1" "- 1"]
  by (simp_all add: powr_minus_divide)

lemma rd_ints: "round_to_double (- 100) = Fin (- 100)" "round_to_double 1 = Fin 1"
  using round_to_double_int[of "- 100"] round_to_double_int[of 1] by simp_all

lemma rd_tiny: "round_to_double (1 / 2 ^ 1074 / 300) = Fin 0"
proof -
  have "round_to_double (1 / 2 ^ 1074 / 300) =
      Fin (of_int (round_even (1 / 2 ^ 1074 / 300 * 2 ^ 1074)) / 2 ^ 1074)"
    by (rule round_to_double_subnormal) (simp_all add: powr_minus_divide)
  moreover have "(1 / 2 ^ 1074 / 300 * 2 ^ 1074 :: real) = 1 / 300" by simp
  moreover have "round_even (1 / 300) = 0"
    by (rule round_even_near) simp
  ultimately show ?thesis by simp
qed

lemma rd_underflow: "round_to_double (- (1 / 2 ^ 600) / 2 ^ 600) = Fin 0"
proof -
  have "round_to_double (- (1 / 2 ^ 600) / 2 ^ 600) =
      Fin (of_int (round_even (- (1 / 2 ^ 600) / 2 ^ 600 * 2 ^ 1074)) / 2 ^ 1074)"
    by (rule round_to_double_subnormal) (simp_all add: powr_minus_divide)
  moreover have "round_even (- (1 / 2 ^ 600) / 2 ^ 600 * 2 ^ 1074) = 0"
    by (rule round_even_near) simp
  ultimately show ?thesis by simp
qed

lemma round_even_ge: "of_int n \<le> y \<Longrightarrow> n \<le> round_even y"
proof -
  assume "of_int n \<le> y"
  then have "n \<le> \<lfloor>y\<rfloor>" by linarith
  then show ?thesis by (simp add: round_even_def)
qed

lemma round_even_le: "y \<le> of_int n \<Longrightarrow> round_even y \<le> n"
proof -
  assume a: "y \<le> of_int n"
  have f: "of_int \<lfloor>y\<rfloor> \<le> y" by linarith
  show ?thesis
  proof (cases "y = of_int \<lfloor>y\<rfloor>")
    case True
    then have "round_even y = \<lfloor>y\<rfloor>" by (simp add: round_even_def)
    moreover have "\<lfloor>y\<rfloor> \<le> n" using a by linarith
    ultimately show ?thesis by simp
  next
    case False
    with f have "of_int \<lfloor>y\<rfloor> < y" by linarith
    with a have "(of_int \<lfloor>y\<rfloor> :: real) < of_int n" by linarith
    then have "\<lfloor>y\<rfloor> < n" by (simp only: of_int_less_iff)
    then show ?thesis by (simp add: round_even_def)
  qed
qed

lemma round_to_double_overflow:
  assumes "2 ^ 1024 \<le> \<bar>x\<bar>"
  shows "round_to_double x = (if 0 < x then PosInf else NegInf)"
proof -
  define e where "e = \<lfloor>log 2 \<bar>x\<bar>\<rfloor>"
  define u :: real where "u = 2 powr of_int (e - 52)"
  have x0: "0 < \<bar>x\<bar>" using assms by (smt (verit) zero_less_power)
  have "(1024 :: real) \<le> log 2 \<bar>x\<bar>"
    using assms x0 by (subst le_log_iff) simp_all
  then have e1: "1024 \<le> e" unfolding e_def by linarith
  then have ue: "ulp_exponent x = e - 52" by (simp add: ulp_exponent_def e_def)
  have u0: "0 < u" by (simp add: u_def)
  have le: "2 powr of_int e \<le> \<bar>x\<bar>" using floor_log2_bounds(1)[OF x0] by (simp add: e_def)
  have ue52: "u * 2 ^ 52 = 2 powr of_int e" by (simp add: u_def powr_diff)
  have big: "(2 ^ 1024 :: real) \<le> 2 powr of_int e"
  proof -
    have "(2 :: real) powr 1024 \<le> 2 powr of_int e" using e1 by (intro powr_mono) auto
    moreover have "(2 :: real) powr 1024 = 2 ^ 1024" by simp
    ultimately show ?thesis by simp
  qed
  have q: "(2 ^ 52 :: real) \<le> \<bar>x\<bar> / u"
  proof -
    have "u * 2 ^ 52 \<le> \<bar>x\<bar>" using le ue52 by simp
    then show ?thesis using u0 by (simp add: field_simps)
  qed
  have "(2 ^ 52 :: int) \<le> \<bar>round_even (x / u)\<bar>"
  proof (cases "0 < x")
    case True
    with q have "(of_int (2 ^ 52) :: real) \<le> x / u" by simp
    then have "2 ^ 52 \<le> round_even (x / u)" by (rule round_even_ge)
    then show ?thesis by linarith
  next
    case False
    with q u0 have "x / u \<le> (of_int (- (2 ^ 52)) :: real)"
      by (simp add: abs_if divide_simps split: if_splits) 
    then have "round_even (x / u) \<le> - (2 ^ 52)" by (rule round_even_le)
    then show ?thesis by linarith
  qed
  then have "(2 ^ 52 :: real) \<le> \<bar>of_int (round_even (x / u))\<bar>"
    by (metis of_int_abs of_int_numeral of_int_power of_int_le_iff)
  then have "u * 2 ^ 52 \<le> u * \<bar>of_int (round_even (x / u))\<bar>"
    using u0 by (simp only: mult_le_cancel_left_pos)
  with ue52 big have "2 ^ 1024 \<le> \<bar>u * of_int (round_even (x / u))\<bar>"
    using u0 by (simp add: abs_mult)
  then show ?thesis
    by (simp add: round_to_double_def ue Let_def u_def)
qed

lemma log10_near_tenth_power:
  assumes c: "\<bar>c - 1 / 10 ^ 10\<bar> \<le> 1 / 10 ^ 10 / 2 ^ 53"
  shows "round_to_double (log 10 c) = Fin (- 10)"
proof -
  define t where "t = c * 10 ^ 10"
  have e1: "t - 1 = (c - 1 / 10 ^ 10) * 10 ^ 10" by (simp add: t_def algebra_simps)
  have "\<bar>t - 1\<bar> = \<bar>c - 1 / 10 ^ 10\<bar> * \<bar>10 ^ 10\<bar>" by (simp only: e1 abs_mult)
  also have "\<dots> \<le> 1 / 10 ^ 10 / 2 ^ 53 * \<bar>10 ^ 10\<bar>"
    using c by (intro mult_right_mono) simp_all
  also have "\<dots> = 1 / 2 ^ 53" by simp
  finally have t1: "\<bar>t - 1\<bar> \<le> 1 / 2 ^ 53" .
  have "(1 / 2 ^ 53 :: real) < 1" by simp
  with t1 have t0: "0 < t" by linarith
  then have c0: "0 < c" by (simp add: t_def zero_less_mult_iff)
  have ct: "c = t / 10 ^ 10" by (simp add: t_def)
  have l10: "log 10 ((10::real) ^ 10) = 10"
    by (subst log_nat_power) simp_all
  have "log 10 c = log 10 t - log 10 (10 ^ 10)"
    unfolding ct using t0 by (subst log_divide) simp_all
  then have lc: "log 10 c = log 10 t - 10"
    by (simp only: l10)
  have "\<bar>ln (1 + (t - 1)) - (t - 1)\<bar> \<le> 2 * (t - 1)\<^sup>2"
    by (rule abs_ln_one_plus_x_minus_x_bound) (use t1 in simp)
  then have l1: "\<bar>ln t\<bar> \<le> \<bar>t - 1\<bar> + 2 * (t - 1)\<^sup>2" by simp
  have "(t - 1)\<^sup>2 = \<bar>t - 1\<bar> * \<bar>t - 1\<bar>" by (simp add: power2_eq_square)
  also have "\<dots> \<le> (1 / 2 ^ 53) * (1 / 2 ^ 53)"
    using t1 by (intro mult_mono) simp_all
  finally have sq: "(t - 1)\<^sup>2 \<le> (1 / 2 ^ 53) * (1 / 2 ^ 53)" .
  from l1 t1 sq have l2: "\<bar>ln t\<bar> \<le> 1 / 2 ^ 52" by simp
  have "exp 1 \<le> (3 :: real)" by (rule exp_le)
  then have "exp (1 :: real) \<le> 10" by simp
  then have ln10: "1 \<le> ln (10 :: real)" by (metis ln_exp ln_le_cancel_iff exp_gt_zero zero_less_numeral)
  have "\<bar>log 10 t\<bar> = \<bar>ln t\<bar> / ln 10" using ln10 by (simp add: log_def)
  also have "\<dots> \<le> \<bar>ln t\<bar> / 1"
    using ln10 by (intro divide_left_mono) simp_all
  finally have eta: "\<bar>log 10 t\<bar> \<le> 1 / 2 ^ 52" using l2 by simp
  define z where "z = log 10 c"
  have z: "\<bar>z + 10\<bar> \<le> 1 / 2 ^ 52" using eta by (simp add: z_def lc)
  have ue: "ulp_exponent z = 3 - 52"
  proof (rule round_to_double_binade)
    have "(1 / 2 ^ 52 :: real) \<le> 1" by simp
    with z have z1: "\<bar>z + 10\<bar> \<le> 1" by linarith
    then have "8 \<le> \<bar>z\<bar>" and "\<bar>z\<bar> < 16" by linarith+
    then show "2 powr of_int 3 \<le> \<bar>z\<bar>" and "\<bar>z\<bar> < 2 powr (of_int 3 + 1)"
      by simp_all
  qed simp
  have "round_even (z / 2 powr of_int (3 - 52)) = - 10 * 2 ^ 49"
  proof (rule round_even_near)
    have e: "z / 2 powr of_int (3 - 52) - of_int (- 10 * 2 ^ 49) = (z + 10) * 2 ^ 49"
      by (simp add: powr_minus_divide algebra_simps)
    have "\<bar>z / 2 powr of_int (3 - 52) - of_int (- 10 * 2 ^ 49)\<bar> = \<bar>z + 10\<bar> * 2 ^ 49"
      unfolding e abs_mult by simp
    also have "\<dots> \<le> 1 / 2 ^ 52 * 2 ^ 49" using z by (intro mult_right_mono) simp_all
    also have "\<dots> < 1 / 2" by simp
    finally show "\<bar>z / 2 powr of_int (3 - 52) - of_int (- 10 * 2 ^ 49)\<bar> < 1 / 2" .
  qed
  then show ?thesis
    unfolding z_def[symmetric]
    by (simp add: round_to_double_def ue Let_def powr_minus_divide)
qed


subsection \<open>Auxiliary facts on the S-parameter arrays\<close>

lemma length_s11:
  "length (s11 refl_flux incident_flux) = min (length refl_flux) (length incident_flux)"
  by (simp add: s11_def)

lemma length_s21:
  "length (s21 trans_flux incident_flux) = min (length trans_flux) (length incident_flux)"
  by (simp add: s21_def)

lemma length_s11_db: "length (s11_db ss) = length ss"
  by (simp add: s11_db_def)

lemma length_s21_db: "length (s21_db ss) = length ss"
  by (simp add: s21_db_def)

lemma s11_nth:
  "k < length refl_flux \<Longrightarrow> k < length incident_flux \<Longrightarrow>
   s11 refl_flux incident_flux ! k =
     (if incident_flux ! k \<noteq> Fin 0 then fdiv (fneg (refl_flux ! k)) (incident_flux ! k)
      else Fin 0)"
  by (simp add: s11_def)

lemma s21_nth:
  "k < length trans_flux \<Longrightarrow> k < length incident_flux \<Longrightarrow>
   s21 trans_flux incident_flux ! k =
     (if incident_flux ! k \<noteq> Fin 0 then fdiv (trans_flux ! k) (incident_flux ! k)
      else Fin 0)"
  by (simp add: s21_def)

lemma s11_db_nth:
  "k < length ss \<Longrightarrow>
   s11_db ss ! k =
     (if ss ! k \<noteq> Fin 0 then fmul (Fin 10) (np_log10 (fabs (ss ! k))) else Fin (- 100))"
  by (simp add: s11_db_def)

lemma s21_db_nth:
  "k < length ss \<Longrightarrow>
   s21_db ss ! k =
     (if ss ! k \<noteq> Fin 0 then fmul (Fin 10) (np_log10 (fabs (ss ! k))) else Fin (- 100))"
  by (simp add: s21_db_def)

lemma fdiv_zero_numerator: "i \<noteq> NaN \<Longrightarrow> i \<noteq> Fin 0 \<Longrightarrow> fdiv (Fin 0) i = Fin 0"
  by (cases i) (simp_all add: fdiv_def round_to_double_0)

lemma fdiv_Fin: "y \<noteq> 0 \<Longrightarrow> fdiv (Fin x) (Fin y) = round_to_double (x / y)"
  by (simp add: fdiv_def)

lemma fmul_Fin: "fmul (Fin x) (Fin y) = round_to_double (x * y)"
  by (simp add: fmul_def)

text \<open>
  The ratio of the fluxes \<open>1\<close> and \<open>10\<^sup>1\<^sup>0\<close> is not zero, and its decibel value is \<open>-100\<close>.
\<close>

lemma tenth_power_ratio:
  "\<exists>y. fdiv (fneg (Fin 1)) (Fin (10 ^ 10)) = Fin y \<and> y \<noteq> 0
     \<and> fmul (Fin 10) (np_log10 (fabs (Fin y))) = Fin (- 100)"
proof -
  have "\<exists>y. round_to_double (- 1 / 10 ^ 10) = Fin y
          \<and> \<bar>y - (- 1 / 10 ^ 10)\<bar> \<le> \<bar>- 1 / 10 ^ 10 :: real\<bar> / 2 ^ 53"
    by (rule round_to_double_normal) (simp_all add: powr_minus_divide)
  then obtain y where y: "round_to_double (- 1 / 10 ^ 10) = Fin y"
    and e: "\<bar>y + 1 / 10 ^ 10\<bar> \<le> 1 / 10 ^ 10 / 2 ^ 53"
    by auto
  have yneg: "y < 0"
  proof -
    have "(1 / 10 ^ 10 / 2 ^ 53 :: real) < 1 / 10 ^ 10" by simp
    with e show ?thesis by linarith
  qed
  have a: "\<bar>\<bar>y\<bar> - 1 / 10 ^ 10\<bar> \<le> 1 / 10 ^ 10 / 2 ^ 53" using e yneg by linarith
  have "np_log10 (fabs (Fin y)) = round_to_double (log 10 \<bar>y\<bar>)" using yneg by simp
  also have "\<dots> = Fin (- 10)" using a by (rule log10_near_tenth_power)
  finally have "fmul (Fin 10) (np_log10 (fabs (Fin y))) = round_to_double (- 100)"
    by (simp add: fmul_Fin)
  also have "\<dots> = Fin (- 100)" using round_to_double_int[of "- 100"] by simp
  finally have "fmul (Fin 10) (np_log10 (fabs (Fin y))) = Fin (- 100)" .
  moreover have "fdiv (fneg (Fin 1)) (Fin (10 ^ 10)) = Fin y"
    using y by (simp add: fdiv_Fin)
  ultimately show ?thesis using yneg by auto
qed

subsection \<open>The run loop\<close>

text \<open>The run loop returns exactly at the first step at which the predicate answers true.\<close>

lemma run_until_SomeD:
  assumes "run_until stop n = Some m"
  shows "n \<le> m \<and> stop m \<and> (\<forall>j. n \<le> j \<and> j < m \<longrightarrow> \<not> stop j)"
proof (rule run_until.raw_induct
    [where P = "\<lambda>stop n m. n \<le> m \<and> stop m \<and> (\<forall>j. n \<le> j \<and> j < m \<longrightarrow> \<not> stop j)", OF _ assms])
  fix f :: "(nat \<Rightarrow> bool) \<Rightarrow> nat \<Rightarrow> nat option" and stop :: "nat \<Rightarrow> bool" and n m :: nat
  assume IH: "\<And>stop n m. f stop n = Some m \<Longrightarrow>
                 n \<le> m \<and> stop m \<and> (\<forall>j. n \<le> j \<and> j < m \<longrightarrow> \<not> stop j)"
    and eq: "(if stop n then Some n else f stop (Suc n)) = Some m"
  show "n \<le> m \<and> stop m \<and> (\<forall>j. n \<le> j \<and> j < m \<longrightarrow> \<not> stop j)"
  proof (cases "stop n")
    case True
    with eq show ?thesis by auto
  next
    case False
    with eq have "f stop (Suc n) = Some m" by simp
    then have *: "Suc n \<le> m \<and> stop m \<and> (\<forall>j. Suc n \<le> j \<and> j < m \<longrightarrow> \<not> stop j)"
      by (rule IH)
    show ?thesis
    proof (intro conjI allI impI)
      show "n \<le> m" using * by simp
      show "stop m" using * by simp
      fix j assume "n \<le> j \<and> j < m"
      then show "\<not> stop j" using * False by (cases "j = n") auto
    qed
  qed
qed

lemma run_until_stops:
  assumes "stop k" and "n \<le> k"
  shows "\<exists>m. run_until stop n = Some m \<and> m \<le> k"
  using assms
proof (induction "k - n" arbitrary: n)
  case 0
  then have "n = k" by simp
  with 0 show ?case by (subst run_until.simps) auto
next
  case (Suc d)
  show ?case
  proof (cases "stop n")
    case True
    with Suc show ?thesis by (subst run_until.simps) auto
  next
    case False
    from Suc have "d = k - Suc n" "Suc n \<le> k" by auto
    from Suc(1)[OF this(1) Suc(3) this(2)] obtain m where "run_until stop (Suc n) = Some m" "m \<le> k"
      by blast
    with False show ?thesis by (subst run_until.simps) auto
  qed
qed

lemma run_until_None_iff: "run_until stop n = None \<longleftrightarrow> (\<forall>k\<ge>n. \<not> stop k)"
proof
  assume N: "run_until stop n = None"
  show "\<forall>k\<ge>n. \<not> stop k"
  proof (intro allI impI notI)
    fix k assume "n \<le> k" "stop k"
    then show False using run_until_stops[of stop k n] N by auto
  qed
next
  assume A: "\<forall>k\<ge>n. \<not> stop k"
  show "run_until stop n = None"
  proof (cases "run_until stop n")
    case None then show ?thesis .
  next
    case (Some m)
    from run_until_SomeD[OF Some] A show ?thesis by auto
  qed
qed

lemma run_until_Some_iff:
  "run_until stop n = Some m \<longleftrightarrow> n \<le> m \<and> stop m \<and> (\<forall>j. n \<le> j \<and> j < m \<longrightarrow> \<not> stop j)"
proof
  assume "run_until stop n = Some m"
  then show "n \<le> m \<and> stop m \<and> (\<forall>j. n \<le> j \<and> j < m \<longrightarrow> \<not> stop j)"
    by (rule run_until_SomeD)
next
  assume R: "n \<le> m \<and> stop m \<and> (\<forall>j. n \<le> j \<and> j < m \<longrightarrow> \<not> stop j)"
  then obtain m' where S: "run_until stop n = Some m'" and "m' \<le> m"
    using run_until_stops[of stop m n] by auto
  from run_until_SomeD[OF S] R \<open>m' \<le> m\<close> have "m' = m"
    by (metis le_neq_implies_less)
  with S show "run_until stop n = Some m" by simp
qed

subsection \<open>The pipeline, with its bindings resolved\<close>

text \<open>
  The constructors raise exactly for a negative radius or height of a cylinder, so
  \<open>build_geometry\<close> returns its five primitives for the constructible configurations and
  raises \<open>ValueError\<close> for the others.
\<close>

lemma build_geometry_eq:
  "build_geometry cfg = (if constructible cfg then Inr (geometry_list cfg) else Inl ValueError)"
  by (simp add: build_geometry_def mp_Block_def mp_Cylinder_def constructible_def
      geometry_list_def Let_def)

lemma create_simulation_unfold:
  "create_simulation cfg =
     (if constructible cfg
      then Inr (base_sim cfg (geometry_list cfg),
                ghz_to_meep (Fin (freq_center_ghz cfg)),
                ghz_to_meep (Fin (freq_width_ghz cfg)))
      else Inl ValueError)"
  by (simp add: create_simulation_def build_geometry_eq base_sim_def Let_def)

lemma base_sim_no_geometry: "(base_sim cfg g)\<lparr>geometry := []\<rparr> = base_sim cfg []"
  by (simp add: base_sim_def)

lemma run_reference_unfold:
  "run_reference slv cfg out tr =
    (if \<not> constructible cfg then (tr, Raised ValueError)
     else case run_until (stop_now slv (reference_sim cfg) (decay_cond cfg)) 0 of
       None \<Rightarrow> (tr @ [RunStart InRunReference (reference_sim cfg) [] (decay_cond cfg)], Diverged)
     | Some n \<Rightarrow>
        (tr @ [RunStart InRunReference (reference_sim cfg) [] (decay_cond cfg),
               RunEnd InRunReference n, ResetMeep, GetFluxData 0 (reference_data slv cfg n)],
         Returned (get_flux_freqs slv (ghz_to_meep (Fin (freq_center_ghz cfg)))
                     (ghz_to_meep (Fin (freq_width_ghz cfg))) 50,
                   get_fluxes slv ((reference_sim cfg)\<lparr>phase := Stepped n\<rparr>) 0,
                   reference_data slv cfg n)))"
  by (simp add: run_reference_def create_simulation_unfold base_sim_no_geometry
      reference_sim_def reference_data_def decay_cond_def refl_spec_def
      add_flux_def sim_run_def reset_meep_def Let_def base_sim_def split: option.splits)

lemma run_simulation_unfold:
  "run_simulation slv cfg out plot =
    (if \<not> makedirs_ok slv out then ([], Raised OSError)
     else if \<not> constructible cfg then ([Makedirs out], Raised ValueError)
     else case run_until (stop_now slv (reference_sim cfg) (decay_cond cfg)) 0 of
       None \<Rightarrow>
        ([Makedirs out, RunStart InRunReference (reference_sim cfg) [] (decay_cond cfg)],
         Diverged)
     | Some n \<Rightarrow>
        (case run_until (stop_now slv (main_sim cfg (reference_data slv cfg n))
                           (decay_cond cfg)) 0 of
           None \<Rightarrow>
            ([Makedirs out, RunStart InRunReference (reference_sim cfg) [] (decay_cond cfg),
              RunEnd InRunReference n, ResetMeep, GetFluxData 0 (reference_data slv cfg n),
              LoadMinusFluxData 0 (reference_data slv cfg n),
              RunStart InRunSimulation (main_sim cfg (reference_data slv cfg n))
                (main_step_funcs cfg) (decay_cond cfg)], Diverged)
         | Some m \<Rightarrow>
            ([Makedirs out, RunStart InRunReference (reference_sim cfg) [] (decay_cond cfg),
              RunEnd InRunReference n, ResetMeep, GetFluxData 0 (reference_data slv cfg n),
              LoadMinusFluxData 0 (reference_data slv cfg n),
              RunStart InRunSimulation (main_sim cfg (reference_data slv cfg n))
                (main_step_funcs cfg) (decay_cond cfg),
              RunEnd InRunSimulation m,
              Savez (out @ ''/results.npz'') (main_results slv cfg n m)]
             @ (if plot then [PlotResults] else []),
             Returned (main_results slv cfg n m))))"
  unfolding run_simulation_def run_reference_unfold
  by (simp add: main_sim_def main_results_def main_step_funcs_def decay_cond_def
      setup_monitors_def create_simulation_unfold add_flux_def load_minus_flux_data_def
      base_sim_def sim_run_def Let_def split: option.splits)

text \<open>The shapes a trace can have, and the two simulation objects.\<close>

lemma trace_cases:
  "fst (run_simulation slv cfg out plot) = [] \<or>
   fst (run_simulation slv cfg out plot) = [Makedirs out] \<or>
   fst (run_simulation slv cfg out plot) =
     [Makedirs out, RunStart InRunReference (reference_sim cfg) [] (decay_cond cfg)] \<or>
   (\<exists>n post. fst (run_simulation slv cfg out plot) =
      [Makedirs out, RunStart InRunReference (reference_sim cfg) [] (decay_cond cfg),
       RunEnd InRunReference n, ResetMeep, GetFluxData 0 (reference_data slv cfg n),
       LoadMinusFluxData 0 (reference_data slv cfg n),
       RunStart InRunSimulation (main_sim cfg (reference_data slv cfg n))
         (main_step_funcs cfg) (decay_cond cfg)] @ post
      \<and> (\<forall>e \<in> set post. \<forall>site. \<not> is_run_start site e)
      \<and> run_until (stop_now slv (reference_sim cfg) (decay_cond cfg)) 0 = Some n)"
  by (simp add: run_simulation_unfold split: option.splits)

lemma reference_sim_props:
  "geometry (reference_sim cfg :: 'fd simulation) = [] \<and>
   dft_fluxes (reference_sim cfg :: 'fd simulation) = [refl_spec cfg] \<and>
   minus_flux_data (reference_sim cfg :: 'fd simulation) = [] \<and>
   phase (reference_sim cfg :: 'fd simulation) = Configured"
  by (simp add: reference_sim_def base_sim_def add_flux_def Let_def)

lemma main_sim_props:
  "geometry (main_sim cfg d) = geometry_list cfg \<and>
   dft_fluxes (main_sim cfg d) =
     [refl_spec cfg,
      \<lparr> fs_fcen = ghz_to_meep (Fin (freq_center_ghz cfg)),
        fs_fwidth = ghz_to_meep (Fin (freq_width_ghz cfg)),
        fs_nfreq = 50,
        fs_center = Vector3 (gap cfg / 2 + 1000) 0 (bridge_t cfg / 2),
        fs_size = Vector3 0 (bridge_w cfg) (bridge_t cfg * 3) \<rparr>] \<and>
   minus_flux_data (main_sim cfg d) = [(0, d)] \<and>
   phase (main_sim cfg d) = Configured"
  by (simp add: main_sim_def base_sim_def setup_monitors_def add_flux_def refl_spec_def
      load_minus_flux_data_def Let_def)

text \<open>
  The handle \<^verbatim>\<open>monitors["refl"]\<close> that \<open>setup_monitors\<close> returns is the handle of the
  monitor it adds first, the reflection monitor.
\<close>

lemma setup_monitors_refl:
  "refl (snd (setup_monitors sim cfg fcen fwidth)) = length (dft_fluxes sim) \<and>
   trans (snd (setup_monitors sim cfg fcen fwidth)) = Suc (length (dft_fluxes sim)) \<and>
   dft_fluxes (fst (setup_monitors sim cfg fcen fwidth)) !
       refl (snd (setup_monitors sim cfg fcen fwidth))
     = \<lparr> fs_fcen = fcen, fs_fwidth = fwidth, fs_nfreq = 50,
         fs_center = Vector3 (- gap cfg / 2 - 1000) 0 (bridge_t cfg / 2),
         fs_size = Vector3 0 (bridge_w cfg) (bridge_t cfg * 3) \<rparr>"
  by (simp add: setup_monitors_def add_flux_def Let_def nth_append)

text \<open>
  The data \<open>run_reference\<close> returns is read from the simulation after its reset, so it is
  the same whatever the run accumulated.
\<close>

lemma reference_data_after_reset:
  "reference_data slv cfg n = reference_data slv cfg m"
  by (simp add: reference_data_def reset_meep_def)

text \<open>The fixtures.\<close>

lemma constructible_default_config: "constructible default_config"
  by (simp add: constructible_def default_config_def MM_TO_UM_def)

lemma constructible_zero_pad_config: "constructible zero_pad_config"
  by (simp add: constructible_def zero_pad_config_def default_config_def MM_TO_UM_def)

lemma not_constructible_thick_wall_config: "\<not> constructible thick_wall_config"
  by (simp add: constructible_def thick_wall_config_def default_config_def MM_TO_UM_def)

lemma stub_run_until_Some:
  "run_until (stop_now (stub_solver inc rf tf (Some n)) sim cond) 0 = Some n"
  by (simp add: run_until_Some_iff stub_solver_def)

lemma stub_run_until_None:
  "run_until (stop_now (stub_solver inc rf tf None) sim cond) 0 = None"
  by (simp add: run_until_None_iff stub_solver_def)

lemma stub_main_results:
  "main_results (stub_solver inc rf tf st) cfg n m =
     \<lparr> freqs_ghz = map meep_to_ghz
         (stub_freqs (ghz_to_meep (Fin (freq_center_ghz cfg)))
            (ghz_to_meep (Fin (freq_width_ghz cfg))) 50),
       s11_db_out = s11_db (s11 rf inc),
       s21_db_out = s21_db (s21 tf inc),
       field_t = [], field_ez = [] \<rparr>"
proof -
  have "geometry_list cfg \<noteq> []"
    by (simp add: geometry_list_def)
  then show ?thesis
    by (simp add: main_results_def stub_solver_def Let_def
        reference_sim_props main_sim_props)
qed

lemma stub_reference_data: "reference_data (stub_solver inc rf tf st) cfg n = []"
  by (simp add: reference_data_def stub_solver_def reset_meep_def)

lemma stub_makedirs: "makedirs_ok (stub_solver inc rf tf st) out"
  by (simp add: stub_solver_def)

lemma stub_pipeline_returns:
  assumes "constructible cfg"
  shows "run_simulation (stub_solver inc rf tf (Some n)) cfg out False =
     ([Makedirs out, RunStart InRunReference (reference_sim cfg) [] (decay_cond cfg),
       RunEnd InRunReference n, ResetMeep, GetFluxData 0 [], LoadMinusFluxData 0 [],
       RunStart InRunSimulation (main_sim cfg []) (main_step_funcs cfg) (decay_cond cfg),
       RunEnd InRunSimulation n,
       Savez (out @ ''/results.npz'') (main_results (stub_solver inc rf tf (Some n)) cfg n n)],
      Returned (main_results (stub_solver inc rf tf (Some n)) cfg n n))"
  using assms
  by (simp add: run_simulation_unfold stub_run_until_Some stub_reference_data stub_makedirs)

lemma stub_pipeline_diverges:
  assumes "constructible cfg"
  shows "run_simulation (stub_solver inc rf tf None) cfg out plot =
     ([Makedirs out, RunStart InRunReference (reference_sim cfg) [] (decay_cond cfg)],
      Diverged)"
  using assms
  by (simp add: run_simulation_unfold stub_run_until_None stub_makedirs)

subsection \<open>S-parameters per frequency bin\<close>




text \<open>
  Claim C2. For every frequency bin \<open>k\<close> whose incident flux is zero, \<open>S11\<^sub>k\<close> and
  \<open>S21\<^sub>k\<close> are zero and both decibel values are the sentinel \<open>-100\<close>, whatever the other
  bins hold. For the incident fluxes \<open>[0, 2, 0]\<close>, the reflected fluxes \<open>[1, 1, 0]\<close> and the
  transmitted fluxes \<open>[0.5, 1, 0]\<close> both decibel arrays are
  \<open>[-100, 10 * log10 0.5, -100]\<close>, the middle entry in float arithmetic.
\<close>

theorem zero_incident_sentinel:
  "(\<forall>k incident_flux refl_flux trans_flux.
      k < length incident_flux \<and> k < length refl_flux \<and> k < length trans_flux
      \<and> incident_flux ! k = Fin 0 \<longrightarrow>
        s11 refl_flux incident_flux ! k = Fin 0
      \<and> s21 trans_flux incident_flux ! k = Fin 0
      \<and> s11_db (s11 refl_flux incident_flux) ! k = Fin (- 100)
      \<and> s21_db (s21 trans_flux incident_flux) ! k = Fin (- 100))
   \<and> s11_db (s11 [Fin 1, Fin 1, Fin 0] [Fin 0, Fin 2, Fin 0])
       = [Fin (- 100), fmul (Fin 10) (np_log10 (Fin 0.5)), Fin (- 100)]
   \<and> s21_db (s21 [Fin 0.5, Fin 1, Fin 0] [Fin 0, Fin 2, Fin 0])
       = [Fin (- 100), fmul (Fin 10) (np_log10 (Fin 0.5)), Fin (- 100)]"
proof (intro conjI allI impI)
  fix k :: nat and incident_flux refl_flux trans_flux :: "npfloat list"
  assume h: "k < length incident_flux \<and> k < length refl_flux \<and> k < length trans_flux
      \<and> incident_flux ! k = Fin 0"
  then show "s11 refl_flux incident_flux ! k = Fin 0"
    by (simp add: s11_nth)
  from h show "s21 trans_flux incident_flux ! k = Fin 0"
    by (simp add: s21_nth)
  from h show "s11_db (s11 refl_flux incident_flux) ! k = Fin (- 100)"
    by (simp add: s11_nth s11_db_nth length_s11)
  from h show "s21_db (s21 trans_flux incident_flux) ! k = Fin (- 100)"
    by (simp add: s21_nth s21_db_nth length_s21)
next
  show "s11_db (s11 [Fin 1, Fin 1, Fin 0] [Fin 0, Fin 2, Fin 0])
       = [Fin (- 100), fmul (Fin 10) (np_log10 (Fin 0.5)), Fin (- 100)]"
    by (simp add: s11_def s11_db_def fdiv_Fin rd_half)
  show "s21_db (s21 [Fin 0.5, Fin 1, Fin 0] [Fin 0, Fin 2, Fin 0])
       = [Fin (- 100), fmul (Fin 10) (np_log10 (Fin 0.5)), Fin (- 100)]"
    by (simp add: s21_def s21_db_def fdiv_Fin rd_half)
qed

theorem zero_incident_sentinel_witness:
  "(0::nat) < length [Fin 0, Fin 2, Fin 0] \<and> [Fin 0, Fin 2, Fin 0] ! 0 = Fin 0
   \<and> s11 [Fin 1, Fin 1, Fin 0] [Fin 0, Fin 2, Fin 0] ! 0 = Fin 0
   \<and> s21 [Fin 0.5, Fin 1, Fin 0] [Fin 0, Fin 2, Fin 0] ! 0 = Fin 0
   \<and> s11_db (s11 [Fin 1, Fin 1, Fin 0] [Fin 0, Fin 2, Fin 0]) ! 0 = Fin (- 100)
   \<and> s21_db (s21 [Fin 0.5, Fin 1, Fin 0] [Fin 0, Fin 2, Fin 0]) ! 0 = Fin (- 100)"
  using zero_incident_sentinel
    [THEN conjunct1, rule_format, of 0 "[Fin 0, Fin 2, Fin 0]" "[Fin 1, Fin 1, Fin 0]"
       "[Fin 0.5, Fin 1, Fin 0]"]
  by simp

text \<open>
  Claim C10, as amended. In every frequency bin the computed ratio \<open>S11\<^sub>k\<close> is zero when
  the incident flux is zero and when the reflected flux is zero and the incident flux is a
  number; it is also zero when the float quotient underflows, as for the fluxes
  \<open>2\<^sup>-\<^sup>6\<^sup>0\<^sup>0\<close> and \<open>2\<^sup>6\<^sup>0\<^sup>0\<close>. A zero ratio gets the sentinel \<open>-100\<close>; a ratio that is not
  zero gets \<open>10 * log10\<close> of its absolute value, in float arithmetic. The same holds for
  \<open>S21\<^sub>k\<close> with the transmitted flux.
\<close>

theorem sentinel_iff_zero_ratio:
  assumes "k < length incident_flux" and "k < length refl_flux" and "k < length trans_flux"
  shows "(incident_flux ! k = Fin 0 \<longrightarrow> s11 refl_flux incident_flux ! k = Fin 0)
       \<and> (refl_flux ! k = Fin 0 \<and> incident_flux ! k \<noteq> NaN \<longrightarrow>
            s11 refl_flux incident_flux ! k = Fin 0)
       \<and> (s11 refl_flux incident_flux ! k = Fin 0 \<longrightarrow>
            s11_db (s11 refl_flux incident_flux) ! k = Fin (- 100))
       \<and> (s11 refl_flux incident_flux ! k \<noteq> Fin 0 \<longrightarrow>
            s11_db (s11 refl_flux incident_flux) ! k
              = fmul (Fin 10) (np_log10 (fabs (s11 refl_flux incident_flux ! k))))
       \<and> (incident_flux ! k = Fin 0 \<longrightarrow> s21 trans_flux incident_flux ! k = Fin 0)
       \<and> (trans_flux ! k = Fin 0 \<and> incident_flux ! k \<noteq> NaN \<longrightarrow>
            s21 trans_flux incident_flux ! k = Fin 0)
       \<and> (s21 trans_flux incident_flux ! k = Fin 0 \<longrightarrow>
            s21_db (s21 trans_flux incident_flux) ! k = Fin (- 100))
       \<and> (s21 trans_flux incident_flux ! k \<noteq> Fin 0 \<longrightarrow>
            s21_db (s21 trans_flux incident_flux) ! k
              = fmul (Fin 10) (np_log10 (fabs (s21 trans_flux incident_flux ! k))))
       \<and> s11 [Fin (1 / 2 ^ 600)] [Fin (2 ^ 600)] = [Fin 0]
       \<and> s11_db (s11 [Fin (1 / 2 ^ 600)] [Fin (2 ^ 600)]) = [Fin (- 100)]"
proof -
  have a: "s11 refl_flux incident_flux ! k =
      (if incident_flux ! k \<noteq> Fin 0 then fdiv (fneg (refl_flux ! k)) (incident_flux ! k)
       else Fin 0)"
    using assms by (simp add: s11_nth)
  have b: "s21 trans_flux incident_flux ! k =
      (if incident_flux ! k \<noteq> Fin 0 then fdiv (trans_flux ! k) (incident_flux ! k)
       else Fin 0)"
    using assms by (simp add: s21_nth)
  have c: "s11_db (s11 refl_flux incident_flux) ! k =
      (if s11 refl_flux incident_flux ! k \<noteq> Fin 0
       then fmul (Fin 10) (np_log10 (fabs (s11 refl_flux incident_flux ! k)))
       else Fin (- 100))"
    using assms by (simp add: s11_db_nth length_s11)
  have d: "s21_db (s21 trans_flux incident_flux) ! k =
      (if s21 trans_flux incident_flux ! k \<noteq> Fin 0
       then fmul (Fin 10) (np_log10 (fabs (s21 trans_flux incident_flux ! k)))
       else Fin (- 100))"
    using assms by (simp add: s21_db_nth length_s21)
  have u: "s11 [Fin (1 / 2 ^ 600)] [Fin (2 ^ 600)] = [Fin 0]"
    using rd_underflow by (simp add: s11_def fdiv_Fin)
  have v: "s11_db (s11 [Fin (1 / 2 ^ 600)] [Fin (2 ^ 600)]) = [Fin (- 100)]"
    unfolding u by (simp add: s11_db_def)
  have z1: "refl_flux ! k = Fin 0 \<and> incident_flux ! k \<noteq> NaN \<longrightarrow>
            s11 refl_flux incident_flux ! k = Fin 0"
    unfolding a by (simp add: fdiv_zero_numerator)
  have z2: "trans_flux ! k = Fin 0 \<and> incident_flux ! k \<noteq> NaN \<longrightarrow>
            s21 trans_flux incident_flux ! k = Fin 0"
    unfolding b by (simp add: fdiv_zero_numerator)
  have i1: "incident_flux ! k = Fin 0 \<longrightarrow> s11 refl_flux incident_flux ! k = Fin 0"
    unfolding a by simp
  have i2: "incident_flux ! k = Fin 0 \<longrightarrow> s21 trans_flux incident_flux ! k = Fin 0"
    unfolding b by simp
  show ?thesis
    using z1 z2 i1 i2 u v by (simp add: c d)
qed

theorem sentinel_iff_zero_ratio_witness:
  "(0::nat) < length [Fin 0, Fin 2, Fin 5] \<and> (1::nat) < length [Fin 0, Fin 2, Fin 5]
   \<and> (2::nat) < length [Fin 0, Fin 2, Fin 5]
   \<and> length [Fin 1, Fin 1, Fin 0] = 3 \<and> length [Fin 2, Fin 0, Fin 5] = 3
   \<and> [Fin 0, Fin 2, Fin 5] ! 0 = Fin 0
   \<and> s11 [Fin 1, Fin 1, Fin 0] [Fin 0, Fin 2, Fin 5] ! 0 = Fin 0
   \<and> s11_db (s11 [Fin 1, Fin 1, Fin 0] [Fin 0, Fin 2, Fin 5]) ! 0 = Fin (- 100)
   \<and> s21 [Fin 2, Fin 0, Fin 5] [Fin 0, Fin 2, Fin 5] ! 0 = Fin 0
   \<and> s21_db (s21 [Fin 2, Fin 0, Fin 5] [Fin 0, Fin 2, Fin 5]) ! 0 = Fin (- 100)
   \<and> s11 [Fin 1, Fin 1, Fin 0] [Fin 0, Fin 2, Fin 5] ! 1 \<noteq> Fin 0
   \<and> s11_db (s11 [Fin 1, Fin 1, Fin 0] [Fin 0, Fin 2, Fin 5]) ! 1
        = fmul (Fin 10)
            (np_log10 (fabs (s11 [Fin 1, Fin 1, Fin 0] [Fin 0, Fin 2, Fin 5] ! 1)))
   \<and> [Fin 2, Fin 0, Fin 5] ! 1 = Fin 0 \<and> [Fin 0, Fin 2, Fin 5] ! 1 \<noteq> NaN
   \<and> s21 [Fin 2, Fin 0, Fin 5] [Fin 0, Fin 2, Fin 5] ! 1 = Fin 0
   \<and> s21_db (s21 [Fin 2, Fin 0, Fin 5] [Fin 0, Fin 2, Fin 5]) ! 1 = Fin (- 100)
   \<and> [Fin 1, Fin 1, Fin 0] ! 2 = Fin 0 \<and> [Fin 0, Fin 2, Fin 5] ! 2 \<noteq> NaN
   \<and> s11 [Fin 1, Fin 1, Fin 0] [Fin 0, Fin 2, Fin 5] ! 2 = Fin 0
   \<and> s11_db (s11 [Fin 1, Fin 1, Fin 0] [Fin 0, Fin 2, Fin 5]) ! 2 = Fin (- 100)
   \<and> s21 [Fin 2, Fin 0, Fin 5] [Fin 0, Fin 2, Fin 5] ! 2 \<noteq> Fin 0
   \<and> s21_db (s21 [Fin 2, Fin 0, Fin 5] [Fin 0, Fin 2, Fin 5]) ! 2
        = fmul (Fin 10)
            (np_log10 (fabs (s21 [Fin 2, Fin 0, Fin 5] [Fin 0, Fin 2, Fin 5] ! 2)))"
proof -
  have a: "s11 [Fin 1, Fin 1, Fin 0] [Fin 0, Fin 2, Fin 5] = [Fin 0, Fin (- (1 / 2)), Fin 0]"
    by (simp add: s11_def fdiv_Fin rd_half round_to_double_0)
  have b: "s21 [Fin 2, Fin 0, Fin 5] [Fin 0, Fin 2, Fin 5] = [Fin 0, Fin 0, Fin 1]"
    by (simp add: s21_def fdiv_Fin rd_ints round_to_double_0)
  have n: "[Fin 0, Fin (- (1 / 2)), Fin 0] ! 1 \<noteq> Fin 0" "[Fin 0, Fin 0, Fin 1] ! 2 \<noteq> Fin 0"
    "[Fin 0, Fin (- (1 / 2)), Fin 0] ! 0 = Fin 0" "[Fin 0, Fin (- (1 / 2)), Fin 0] ! 2 = Fin 0"
    "[Fin 0, Fin 0, Fin 1] ! 0 = Fin 0" "[Fin 0, Fin 0, Fin 1] ! 1 = Fin 0"
    by simp_all
  have l: "(0::nat) < length [Fin 0, Fin 2, Fin 5]" "(1::nat) < length [Fin 0, Fin 2, Fin 5]"
    "(2::nat) < length [Fin 0, Fin 2, Fin 5]"
    "(0::nat) < length [Fin 1, Fin 1, Fin 0]" "(1::nat) < length [Fin 1, Fin 1, Fin 0]"
    "(2::nat) < length [Fin 1, Fin 1, Fin 0]"
    "(0::nat) < length [Fin 2, Fin 0, Fin 5]" "(1::nat) < length [Fin 2, Fin 0, Fin 5]"
    "(2::nat) < length [Fin 2, Fin 0, Fin 5]"
    by simp_all
  note t0 = sentinel_iff_zero_ratio [OF l(1) l(4) l(7), unfolded a b]
  note t1 = sentinel_iff_zero_ratio [OF l(2) l(5) l(8), unfolded a b]
  note t2 = sentinel_iff_zero_ratio [OF l(3) l(6) l(9), unfolded a b]
  have d0: "s11_db [Fin 0, Fin (- (1 / 2)), Fin 0] ! 0 = Fin (- 100)"
    "s21_db [Fin 0, Fin 0, Fin 1] ! 0 = Fin (- 100)"
    using t0 n by blast+
  have d1: "s11_db [Fin 0, Fin (- (1 / 2)), Fin 0] ! 1
      = fmul (Fin 10) (np_log10 (fabs ([Fin 0, Fin (- (1 / 2)), Fin 0] ! 1)))"
    "s21_db [Fin 0, Fin 0, Fin 1] ! 1 = Fin (- 100)"
    using t1 n by blast+
  have d2: "s11_db [Fin 0, Fin (- (1 / 2)), Fin 0] ! 2 = Fin (- 100)"
    "s21_db [Fin 0, Fin 0, Fin 1] ! 2
      = fmul (Fin 10) (np_log10 (fabs ([Fin 0, Fin 0, Fin 1] ! 2)))"
    using t2 n by blast+
  show ?thesis
    unfolding a b using d0 d1 d2 by simp
qed

text \<open>
  Claim C10 as stated fails in its second half: with the reflected flux \<open>1\<close> and the
  incident flux \<open>10\<^sup>1\<^sup>0\<close> the ratio is not zero, and the decibel value the log10 branch
  computes is \<open>-100\<close>, the sentinel.
\<close>

theorem nonzero_ratio_sentinel_counterexample:
  "s11 [Fin 1] [Fin (10 ^ 10)] ! 0 \<noteq> Fin 0
   \<and> s11_db (s11 [Fin 1] [Fin (10 ^ 10)]) ! 0 = Fin (- 100)"
proof -
  from tenth_power_ratio obtain y where
    y: "fdiv (fneg (Fin 1)) (Fin (10 ^ 10)) = Fin y" "y \<noteq> 0"
       "fmul (Fin 10) (np_log10 (fabs (Fin y))) = Fin (- 100)"
    by blast
  have "s11 [Fin 1] [Fin (10 ^ 10)] = [Fin y]"
    using y(1) by (simp add: s11_def)
  then show ?thesis
    using y(2,3) by (simp add: s11_db_def)
qed

text \<open>
  Claim C3, as amended. For flux arrays of unequal length the S-parameter computation
  raises no error: it pairs the arrays up to the shorter length, so the S11 arrays have as
  many entries as the shorter of the reflected and incident arrays, the S21 arrays as many
  as the shorter of the transmitted and incident arrays, the entries beyond are dropped,
  and no execution of the pipeline ends in \<open>MonitorGridMismatch\<close>.
\<close>

theorem unequal_lengths_truncate:
  "length (s11_db (s11 refl_flux incident_flux))
       = min (length refl_flux) (length incident_flux)
   \<and> length (s21_db (s21 trans_flux incident_flux))
       = min (length trans_flux) (length incident_flux)
   \<and> s11 refl_flux incident_flux
       = s11 (take (length incident_flux) refl_flux) (take (length refl_flux) incident_flux)
   \<and> s21 trans_flux incident_flux
       = s21 (take (length incident_flux) trans_flux) (take (length trans_flux) incident_flux)
   \<and> snd (run_simulation slv cfg out plot) \<noteq> Raised MonitorGridMismatch"
proof (intro conjI)
  show "length (s11_db (s11 refl_flux incident_flux))
       = min (length refl_flux) (length incident_flux)"
    by (simp add: length_s11_db length_s11)
  show "length (s21_db (s21 trans_flux incident_flux))
       = min (length trans_flux) (length incident_flux)"
    by (simp add: length_s21_db length_s21)
  have z: "zip xs ys = zip (take (length ys) xs) (take (length xs) ys)"
    for xs ys :: "npfloat list"
    by (induction xs ys rule: list_induct2') auto
  show "s11 refl_flux incident_flux
       = s11 (take (length incident_flux) refl_flux) (take (length refl_flux) incident_flux)"
    unfolding s11_def using z by simp
  show "s21 trans_flux incident_flux
       = s21 (take (length incident_flux) trans_flux) (take (length trans_flux) incident_flux)"
    unfolding s21_def using z by simp
  show "snd (run_simulation slv cfg out plot) \<noteq> Raised MonitorGridMismatch"
    by (simp add: run_simulation_unfold split: option.splits)
qed

text \<open>
  Claim C3 as stated fails: with an incident array of one bin and reflected and
  transmitted arrays of two bins the pipeline returns, with arrays of one bin.
\<close>

theorem mismatched_grids_counterexample:
  "length [Fin 1, Fin 1] \<noteq> length [Fin 2]
   \<and> snd (run_simulation (stub_solver [Fin 2] [Fin 1, Fin 1] [Fin 1, Fin 1] (Some 0))
            default_config ''output'' False)
     = Returned \<lparr> freqs_ghz = map meep_to_ghz
                     (stub_freqs (ghz_to_meep (Fin 5)) (ghz_to_meep (Fin 4)) 50),
                  s11_db_out = [fmul (Fin 10) (np_log10 (Fin (1 / 2)))],
                  s21_db_out = [fmul (Fin 10) (np_log10 (Fin (1 / 2)))],
                  field_t = [], field_ez = [] \<rparr>"
  unfolding stub_pipeline_returns [OF constructible_default_config] stub_main_results
  by (simp add: default_config_def s11_def s11_db_def s21_def s21_db_def fdiv_Fin rd_half)

subsection \<open>Unit conversion\<close>

text \<open>
  Two float operations in a row, each with a relative error of at most \<open>2\<^sup>-\<^sup>5\<^sup>3\<close>, stay
  within \<open>10\<^sup>-\<^sup>9\<close> of the start.
\<close>

lemma two_roundings_bound:
  fixes f y z :: real
  assumes f: "0 < f"
    and y: "\<bar>y - f / 300\<bar> \<le> \<bar>f / 300\<bar> / 2 ^ 53"
    and z: "\<bar>z - y * 300\<bar> \<le> \<bar>y * 300\<bar> / 2 ^ 53"
  shows "\<bar>z - f\<bar> \<le> f / 10 ^ 9"
proof -
  define d where "d = y * 300 - f"
  have e: "d = (y - f / 300) * 300" by (simp add: d_def algebra_simps)
  have "\<bar>d\<bar> = \<bar>y - f / 300\<bar> * 300" unfolding e abs_mult by simp
  also have "\<dots> \<le> \<bar>f / 300\<bar> / 2 ^ 53 * 300" using y by (intro mult_right_mono) simp_all
  also have "\<dots> = f / 2 ^ 53" using f by simp
  finally have d: "\<bar>d\<bar> \<le> f / 2 ^ 53" .
  have "\<bar>y * 300\<bar> = \<bar>f + d\<bar>" by (simp add: d_def)
  also have "\<dots> \<le> f + \<bar>d\<bar>" using f by linarith
  finally have y3: "\<bar>y * 300\<bar> \<le> f + f / 2 ^ 53" using d by linarith
  have "\<bar>y * 300\<bar> / 2 ^ 53 \<le> (f + f / 2 ^ 53) / 2 ^ 53"
    using y3 by (intro divide_right_mono) simp_all
  with z have z': "\<bar>z - y * 300\<bar> \<le> (f + f / 2 ^ 53) / 2 ^ 53" by linarith
  have "\<bar>z - f\<bar> \<le> \<bar>z - y * 300\<bar> + \<bar>d\<bar>" by (simp add: d_def)
  also have "\<dots> \<le> (f + f / 2 ^ 53) / 2 ^ 53 + f / 2 ^ 53" using z' d by linarith
  also have "\<dots> \<le> f / 10 ^ 9" using f by (simp add: field_simps)
  finally show ?thesis .
qed

text \<open>
  Claim C7, as amended. The forward conversion is the float division by \<open>300\<close> and the
  inverse is the float multiplication by \<open>300\<close>. For every frequency \<open>f\<close> between
  \<open>300 * 2\<^sup>-\<^sup>1\<^sup>0\<^sup>2\<^sup>2\<close> and \<open>2\<^sup>1\<^sup>0\<^sup>2\<^sup>3\<close> both results are finite and the round trip
  reproduces \<open>f\<close> within a relative tolerance of \<open>10\<^sup>-\<^sup>9\<close>.
\<close>

theorem ghz_meep_roundtrip:
  assumes lo: "300 * 2 powr (- 1022) \<le> f" and hi: "f \<le> 2 ^ 1023"
  shows "ghz_to_meep (Fin f) = fdiv (Fin f) (Fin 300)
       \<and> (\<forall>a. meep_to_ghz a = fmul a (Fin 300))
       \<and> (\<exists>y z. ghz_to_meep (Fin f) = Fin y \<and> meep_to_ghz (Fin y) = Fin z
              \<and> \<bar>z - f\<bar> \<le> f / 10 ^ 9)"
proof -
  define p :: real where "p = 2 powr (- 1022)"
  define B :: real where "B = 2 ^ 1023"
  have p0: "0 < p" by (simp add: p_def)
  have B2: "(2 :: real) ^ 1024 = 2 * B" by (simp add: B_def)
  have lo': "300 * p \<le> f" using lo by (simp add: p_def)
  have hi': "f \<le> B" using hi by (simp add: B_def)
  have f0: "0 < f" using lo' p0 by linarith
  have x0: "\<bar>f / 300\<bar> = f / 300" using f0 by simp
  have "\<exists>y. round_to_double (f / 300) = Fin y \<and> \<bar>y - f / 300\<bar> \<le> \<bar>f / 300\<bar> / 2 ^ 53"
  proof (rule round_to_double_normal)
    show "2 powr (- 1022) \<le> \<bar>f / 300\<bar>"
      unfolding x0 p_def[symmetric] using lo' by simp
    have "f / 300 * (1 + 1 / 2 ^ 53) \<le> f" using f0 by (simp add: field_simps)
    also have "\<dots> < 2 * B" using hi' f0 by linarith
    finally show "\<bar>f / 300\<bar> * (1 + 1 / 2 ^ 53) < 2 ^ 1024"
      unfolding x0 B2 .
  qed
  then obtain y where y: "round_to_double (f / 300) = Fin y"
    and ye: "\<bar>y - f / 300\<bar> \<le> \<bar>f / 300\<bar> / 2 ^ 53"
    by blast
  have ye': "\<bar>y * 300 - f\<bar> \<le> f / 2 ^ 53"
  proof -
    have e: "y * 300 - f = (y - f / 300) * 300" by (simp add: algebra_simps)
    have "\<bar>y * 300 - f\<bar> = \<bar>y - f / 300\<bar> * 300" unfolding e abs_mult by simp
    also have "\<dots> \<le> \<bar>f / 300\<bar> / 2 ^ 53 * 300" using ye by (intro mult_right_mono) simp_all
    also have "\<dots> = f / 2 ^ 53" using f0 by simp
    finally show ?thesis .
  qed
  have h53: "f / 2 ^ 53 \<le> f / 2" using f0 by (simp add: field_simps)
  have ypos: "0 < y * 300" using ye' h53 f0 by linarith
  have ya: "\<bar>y * 300\<bar> = y * 300" using ypos by simp
  have "\<exists>z. round_to_double (y * 300) = Fin z \<and> \<bar>z - y * 300\<bar> \<le> \<bar>y * 300\<bar> / 2 ^ 53"
  proof (rule round_to_double_normal)
    have "f - f / 2 ^ 53 \<le> y * 300" using ye' by linarith
    moreover have "p \<le> f - f / 2 ^ 53"
    proof -
      have "f - f / 2 ^ 53 = f * (1 - 1 / 2 ^ 53)" by (simp add: algebra_simps)
      also have "\<dots> \<ge> 300 * p * (1 - 1 / 2 ^ 53)"
        using lo' by (intro mult_right_mono) simp_all
      finally have "300 * p * (1 - 1 / 2 ^ 53) \<le> f - f / 2 ^ 53" .
      moreover have "p \<le> 300 * p * (1 - 1 / 2 ^ 53)" using p0 by (simp add: field_simps)
      ultimately show ?thesis by linarith
    qed
    ultimately show "2 powr (- 1022) \<le> \<bar>y * 300\<bar>"
      unfolding ya p_def[symmetric] by linarith
    have "y * 300 \<le> f + f / 2 ^ 53" using ye' by linarith
    then have "y * 300 * (1 + 1 / 2 ^ 53) \<le> (f + f / 2 ^ 53) * (1 + 1 / 2 ^ 53)"
      by (intro mult_right_mono) simp_all
    also have "\<dots> < 2 * f" using f0 by (simp add: field_simps)
    also have "\<dots> \<le> 2 * B" using hi' by simp
    finally show "\<bar>y * 300\<bar> * (1 + 1 / 2 ^ 53) < 2 ^ 1024"
      unfolding ya B2 .
  qed
  then obtain z where z: "round_to_double (y * 300) = Fin z"
    and ze: "\<bar>z - y * 300\<bar> \<le> \<bar>y * 300\<bar> / 2 ^ 53"
    by blast
  have b: "\<bar>z - f\<bar> \<le> f / 10 ^ 9"
    using f0 ye ze by (rule two_roundings_bound)
  have g: "ghz_to_meep (Fin f) = Fin y"
    using y by (simp add: ghz_to_meep_def fdiv_Fin)
  have m: "meep_to_ghz (Fin y) = Fin z"
    using z by (simp add: meep_to_ghz_def fmul_Fin)
  show ?thesis
  proof (intro conjI allI)
    show "ghz_to_meep (Fin f) = fdiv (Fin f) (Fin 300)" by (simp add: ghz_to_meep_def)
    show "meep_to_ghz a = fmul a (Fin 300)" for a by (simp add: meep_to_ghz_def)
    show "\<exists>y z. ghz_to_meep (Fin f) = Fin y \<and> meep_to_ghz (Fin y) = Fin z
              \<and> \<bar>z - f\<bar> \<le> f / 10 ^ 9"
      using g m b by blast
  qed
qed

theorem ghz_meep_roundtrip_witness:
  "300 * 2 powr (- 1022) \<le> (5 :: real) \<and> (5 :: real) \<le> 2 ^ 1023
   \<and> (\<exists>y z. ghz_to_meep (Fin 5) = Fin y \<and> meep_to_ghz (Fin y) = Fin z
          \<and> \<bar>z - 5\<bar> \<le> 5 / 10 ^ 9)"
proof -
  have "(2 :: real) powr (- 1022) \<le> 2 powr (- 7)" by (intro powr_mono) simp_all
  also have "\<dots> = 1 / 128" by (simp add: powr_minus_divide)
  finally have lo: "300 * 2 powr (- 1022) \<le> (5 :: real)" by simp
  have "(5 :: real) \<le> 2 ^ 3" by simp
  also have "\<dots> \<le> 2 ^ 1023" by (intro power_increasing) simp_all
  finally have hi: "(5 :: real) \<le> 2 ^ 1023" .
  from lo hi ghz_meep_roundtrip [OF lo hi] show ?thesis by blast
qed

text \<open>
  Claim C7 as stated fails for the smallest positive float, \<open>2\<^sup>-\<^sup>1\<^sup>0\<^sup>7\<^sup>4\<close>: its quotient by
  \<open>300\<close> is stored as zero, and the round trip gives zero.
\<close>

theorem tiny_frequency_counterexample:
  "(0 :: real) < 1 / 2 ^ 1074
   \<and> ghz_to_meep (Fin (1 / 2 ^ 1074)) = Fin 0
   \<and> meep_to_ghz (ghz_to_meep (Fin (1 / 2 ^ 1074))) = Fin 0
   \<and> \<not> \<bar>0 - 1 / 2 ^ 1074 :: real\<bar> \<le> 1 / 10 ^ 9 * (1 / 2 ^ 1074)"
proof -
  have g: "ghz_to_meep (Fin (1 / 2 ^ 1074)) = Fin 0"
    using rd_tiny by (simp add: ghz_to_meep_def fdiv_Fin)
  have m: "meep_to_ghz (Fin 0) = Fin 0"
    by (simp add: meep_to_ghz_def fmul_Fin round_to_double_0)
  have p: "(0 :: real) < 1 / 2 ^ 1074" by simp
  then have "\<not> \<bar>0 - 1 / 2 ^ 1074 :: real\<bar> \<le> 1 / 10 ^ 9 * (1 / 2 ^ 1074)"
    by (simp add: field_simps)
  with g m p show ?thesis by (simp only: simp_thms)
qed

subsection \<open>Geometry\<close>

text \<open>
  Claim C8. In every list \<open>build_geometry\<close> returns, the only cylinders are the last two
  entries: the dielectric outer cylinder at position 3 and the air cylinder at position 4,
  on the same centre, and the height of the air cylinder is strictly greater than the
  height of the outer one. \<open>build_geometry\<close> returns a list whenever the radius and the
  height of the tube are not negative and the wall is not thicker than the radius. The
  generated script returns a list, with the same properties.
\<close>

theorem hollow_tube_inner_after_outer:
  "(build_geometry cfg = Inr g \<longrightarrow>
       map is_cylinder g = [False, False, False, True, True]
     \<and> obj_material (g ! 3) = Medium 4.4
     \<and> obj_material (g ! 4) = Air
     \<and> obj_center (g ! 3) = obj_center (g ! 4)
     \<and> cyl_height (g ! 3) = Some (substrate_h cfg)
     \<and> cyl_height (g ! 4) = Some (substrate_h cfg + 100)
     \<and> substrate_h cfg < substrate_h cfg + 100)
   \<and> (0 \<le> substrate_r cfg \<and> 0 \<le> substrate_h cfg \<and> wall_thickness cfg \<le> substrate_r cfg
        \<longrightarrow> (\<exists>g'. build_geometry cfg = Inr g'))
   \<and> (\<exists>ge. build_geometry_export = Inr ge
       \<and> map is_cylinder ge = [False, False, False, True, True]
       \<and> obj_material (ge ! 3) = Medium 4.4
       \<and> obj_material (ge ! 4) = Air
       \<and> obj_center (ge ! 3) = obj_center (ge ! 4)
       \<and> cyl_height (ge ! 3) = Some 9600
       \<and> cyl_height (ge ! 4) = Some 10000
       \<and> (9600 :: real) < 10000)
   \<and> (3 :: nat) < 4"
proof (intro conjI impI)
  assume "build_geometry cfg = Inr g"
  then have g: "g = geometry_list cfg"
    by (simp add: build_geometry_eq split: if_splits)
  show "map is_cylinder g = [False, False, False, True, True]"
    and "obj_material (g ! 3) = Medium 4.4"
    and "obj_material (g ! 4) = Air"
    and "obj_center (g ! 3) = obj_center (g ! 4)"
    and "cyl_height (g ! 3) = Some (substrate_h cfg)"
    and "cyl_height (g ! 4) = Some (substrate_h cfg + 100)"
    and "substrate_h cfg < substrate_h cfg + 100"
    by (simp_all add: g geometry_list_def fr4_def)
next
  assume "0 \<le> substrate_r cfg \<and> 0 \<le> substrate_h cfg \<and> wall_thickness cfg \<le> substrate_r cfg"
  then show "\<exists>g'. build_geometry cfg = Inr g'"
    by (simp add: build_geometry_eq constructible_def)
next
  show "\<exists>ge. build_geometry_export = Inr ge
       \<and> map is_cylinder ge = [False, False, False, True, True]
       \<and> obj_material (ge ! 3) = Medium 4.4
       \<and> obj_material (ge ! 4) = Air
       \<and> obj_center (ge ! 3) = obj_center (ge ! 4)
       \<and> cyl_height (ge ! 3) = Some 9600
       \<and> cyl_height (ge ! 4) = Some 10000
       \<and> (9600 :: real) < 10000"
    by (simp add: build_geometry_export_def mp_Block_def mp_Cylinder_def Let_def)
  show "(3 :: nat) < 4" by simp
qed

theorem hollow_tube_inner_after_outer_witness:
  "build_geometry default_config = Inr (geometry_list default_config)
   \<and> 0 \<le> substrate_r default_config \<and> 0 \<le> substrate_h default_config
   \<and> wall_thickness default_config \<le> substrate_r default_config
   \<and> map is_cylinder (geometry_list default_config) = [False, False, False, True, True]
   \<and> obj_material (geometry_list default_config ! 3) = Medium 4.4
   \<and> obj_material (geometry_list default_config ! 4) = Air
   \<and> cyl_height (geometry_list default_config ! 3) = Some 9600
   \<and> cyl_height (geometry_list default_config ! 4) = Some 9700"
proof -
  have b: "build_geometry default_config = Inr (geometry_list default_config)"
    by (simp add: build_geometry_eq constructible_default_config)
  have c: "0 \<le> substrate_r default_config \<and> 0 \<le> substrate_h default_config
     \<and> wall_thickness default_config \<le> substrate_r default_config"
    by (simp add: default_config_def MM_TO_UM_def)
  have h: "substrate_h default_config = 9600"
    by (simp add: default_config_def MM_TO_UM_def)
  from b c hollow_tube_inner_after_outer [of default_config "geometry_list default_config"]
  show ?thesis by (simp add: h)
qed

text \<open>
  Claim C9, as amended. \<open>build_geometry\<close> checks no extent itself and no execution ends in
  \<open>InvalidGeometry\<close>. When the radius and the height of the tube are not negative and the
  wall is not thicker than the radius, it returns the five primitives with the extents its
  formulas give, also where one of them is zero or the size of a block is negative, and
  the reference run is started whenever the output directory can be created. Otherwise a
  cylinder would have a negative radius or height: the constructor of the solver library
  raises \<open>ValueError\<close>, and the pipeline ends with that exception after it has created the
  output directory and before any run is started.
\<close>

theorem build_geometry_unchecked:
  "(0 \<le> substrate_r cfg \<and> 0 \<le> substrate_h cfg \<and> wall_thickness cfg \<le> substrate_r cfg \<longrightarrow>
      (\<exists>g. build_geometry cfg = Inr g
         \<and> map extents g =
             [[pad_length cfg, bridge_w cfg, bridge_t cfg],
              [pad_length cfg, bridge_w cfg, bridge_t cfg],
              [gap cfg + 4 * MM_TO_UM, bridge_w cfg * 0.6, bridge_t cfg * 0.5],
              [substrate_r cfg, substrate_h cfg],
              [substrate_r cfg - wall_thickness cfg, substrate_h cfg + 100]])
      \<and> (makedirs_ok slv out \<longrightarrow>
           list_ex (is_run_start InRunReference) (fst (run_simulation slv cfg out plot))))
   \<and> (\<not> (0 \<le> substrate_r cfg \<and> 0 \<le> substrate_h cfg
           \<and> wall_thickness cfg \<le> substrate_r cfg) \<longrightarrow>
        build_geometry cfg = Inl ValueError
      \<and> (makedirs_ok slv out \<longrightarrow>
           run_simulation slv cfg out plot = ([Makedirs out], Raised ValueError)))
   \<and> build_geometry cfg \<noteq> Inl InvalidGeometry
   \<and> snd (run_simulation slv cfg out plot) \<noteq> Raised InvalidGeometry"
proof -
  have c: "(0 \<le> substrate_r cfg \<and> 0 \<le> substrate_h cfg
            \<and> wall_thickness cfg \<le> substrate_r cfg) = constructible cfg"
    by (simp add: constructible_def)
  have e: "map extents (geometry_list cfg) =
             [[pad_length cfg, bridge_w cfg, bridge_t cfg],
              [pad_length cfg, bridge_w cfg, bridge_t cfg],
              [gap cfg + 4 * MM_TO_UM, bridge_w cfg * 0.6, bridge_t cfg * 0.5],
              [substrate_r cfg, substrate_h cfg],
              [substrate_r cfg - wall_thickness cfg, substrate_h cfg + 100]]"
    by (simp add: geometry_list_def Vector3_def)
  have r: "constructible cfg \<Longrightarrow> makedirs_ok slv out \<Longrightarrow>
      list_ex (is_run_start InRunReference) (fst (run_simulation slv cfg out plot))"
    by (simp add: run_simulation_unfold split: option.splits)
  have v: "\<not> constructible cfg \<Longrightarrow> makedirs_ok slv out \<Longrightarrow>
      run_simulation slv cfg out plot = ([Makedirs out], Raised ValueError)"
    by (simp add: run_simulation_unfold)
  have n: "snd (run_simulation slv cfg out plot) \<noteq> Raised InvalidGeometry"
    by (simp add: run_simulation_unfold split: option.splits)
  show ?thesis
    unfolding c using e r v n by (simp add: build_geometry_eq)
qed

theorem build_geometry_unchecked_witness:
  "0 \<le> substrate_r zero_pad_config \<and> 0 \<le> substrate_h zero_pad_config
   \<and> wall_thickness zero_pad_config \<le> substrate_r zero_pad_config
   \<and> makedirs_ok (stub_solver [Fin 1] [Fin 1] [Fin 1] (Some 0)) ''output''
   \<and> (\<exists>g. build_geometry zero_pad_config = Inr g
        \<and> map extents g =
           [[0, 8000, 500], [0, 8000, 500], [6500, 4800, 250], [15000, 9600], [13000, 9700]])
   \<and> list_ex (is_run_start InRunReference)
       (fst (run_simulation (stub_solver [Fin 1] [Fin 1] [Fin 1] (Some 0)) zero_pad_config
               ''output'' False))
   \<and> \<not> (0 \<le> substrate_r thick_wall_config \<and> 0 \<le> substrate_h thick_wall_config
         \<and> wall_thickness thick_wall_config \<le> substrate_r thick_wall_config)
   \<and> build_geometry thick_wall_config = Inl ValueError
   \<and> run_simulation (stub_solver [Fin 1] [Fin 1] [Fin 1] (Some 0)) thick_wall_config
        ''output'' False
      = ([Makedirs ''output''], Raised ValueError)"
proof -
  have a: "0 \<le> substrate_r zero_pad_config \<and> 0 \<le> substrate_h zero_pad_config
     \<and> wall_thickness zero_pad_config \<le> substrate_r zero_pad_config"
    by (simp add: zero_pad_config_def default_config_def MM_TO_UM_def)
  have b: "\<not> (0 \<le> substrate_r thick_wall_config \<and> 0 \<le> substrate_h thick_wall_config
         \<and> wall_thickness thick_wall_config \<le> substrate_r thick_wall_config)"
    by (simp add: thick_wall_config_def default_config_def MM_TO_UM_def)
  have m: "makedirs_ok (stub_solver [Fin 1] [Fin 1] [Fin 1] (Some 0)) ''output''"
    by (rule stub_makedirs)
  have v: "pad_length zero_pad_config = 0" "bridge_w zero_pad_config = 8000"
    "bridge_t zero_pad_config = 500" "gap zero_pad_config = 2500"
    "substrate_r zero_pad_config = 15000" "substrate_h zero_pad_config = 9600"
    "wall_thickness zero_pad_config = 2000"
    by (simp_all add: zero_pad_config_def default_config_def MM_TO_UM_def)
  from a b m
    build_geometry_unchecked
      [of zero_pad_config "stub_solver [Fin 1] [Fin 1] [Fin 1] (Some 0)" "''output''" False]
    build_geometry_unchecked
      [of thick_wall_config "stub_solver [Fin 1] [Fin 1] [Fin 1] (Some 0)" "''output''" False]
  show ?thesis
    by (simp add: v MM_TO_UM_def)
qed

text \<open>
  Claim C9 as stated fails: with a pad length of zero two blocks have a zero extent,
  \<open>build_geometry\<close> returns them, nothing is raised and both runs are started.
\<close>

theorem zero_extent_counterexample:
  "pad_length zero_pad_config = 0
   \<and> build_geometry zero_pad_config = Inr (geometry_list zero_pad_config)
   \<and> extents (geometry_list zero_pad_config ! 0) = [0, 8000, 500]
   \<and> length (geometry_list zero_pad_config) = 5
   \<and> snd (run_simulation (stub_solver [Fin 1] [Fin 1] [Fin 1] (Some 0)) zero_pad_config
            ''output'' False) \<noteq> Raised InvalidGeometry
   \<and> list_ex (is_run_start InRunReference)
       (fst (run_simulation (stub_solver [Fin 1] [Fin 1] [Fin 1] (Some 0)) zero_pad_config
               ''output'' False))
   \<and> list_ex (is_run_start InRunSimulation)
       (fst (run_simulation (stub_solver [Fin 1] [Fin 1] [Fin 1] (Some 0)) zero_pad_config
               ''output'' False))"
proof -
  have b: "build_geometry zero_pad_config = Inr (geometry_list zero_pad_config)"
    by (simp add: build_geometry_eq constructible_zero_pad_config)
  have v: "pad_length zero_pad_config = 0"
    "extents (geometry_list zero_pad_config ! 0) = [0, 8000, 500]"
    "length (geometry_list zero_pad_config) = 5"
    by (simp_all add: geometry_list_def Vector3_def zero_pad_config_def default_config_def
        MM_TO_UM_def)
  show ?thesis
    unfolding stub_pipeline_returns [OF constructible_zero_pad_config]
    using b v by simp
qed

subsection \<open>The order of the two runs\<close>

text \<open>
  In every execution of the pipeline in which the main run is started, the trace up to
  that call is: the directory is created, the reference run (with an empty geometry list)
  is started and returns, the simulation is reset, its flux data is read from the
  simulation as reset, that data is loaded with a minus sign into the monitor whose handle
  \<open>setup_monitors\<close> returned under the key \<^verbatim>\<open>refl\<close> (the first monitor of the main
  simulation, which is its reflection monitor), and only then the main run (with the full
  geometry) is started, once.
\<close>

lemma main_run_start_prefix:
  assumes "RunStart InRunSimulation sm fs cm \<in> set (fst (run_simulation slv cfg out plot))"
  shows "\<exists>n post.
     fst (run_simulation slv cfg out plot) =
        [Makedirs out, RunStart InRunReference (reference_sim cfg) [] (decay_cond cfg),
         RunEnd InRunReference n, ResetMeep,
         GetFluxData 0 (reference_data slv cfg n),
         LoadMinusFluxData 0 (reference_data slv cfg n),
         RunStart InRunSimulation sm fs cm] @ post
     \<and> sim_run slv (reference_sim cfg) (decay_cond cfg)
         = Some ((reference_sim cfg)\<lparr>phase := Stepped n\<rparr>)
     \<and> sm = main_sim cfg (reference_data slv cfg n)
     \<and> reference_data slv cfg n
         = get_flux_data slv (reset_meep ((reference_sim cfg)\<lparr>phase := Stepped n\<rparr>)) 0
     \<and> dft_fluxes sm ! 0 = refl_spec cfg
     \<and> minus_flux_data sm = [(0, reference_data slv cfg n)]
     \<and> \<not> list_ex (is_run_start InRunSimulation) post"
proof -
  let ?tr = "fst (run_simulation slv cfg out plot)"
  from trace_cases[of slv cfg out plot] consider
      "?tr = []"
    | "?tr = [Makedirs out]"
    | "?tr = [Makedirs out, RunStart InRunReference (reference_sim cfg) [] (decay_cond cfg)]"
    | n post where "?tr =
        [Makedirs out, RunStart InRunReference (reference_sim cfg) [] (decay_cond cfg),
         RunEnd InRunReference n, ResetMeep, GetFluxData 0 (reference_data slv cfg n),
         LoadMinusFluxData 0 (reference_data slv cfg n),
         RunStart InRunSimulation (main_sim cfg (reference_data slv cfg n))
           (main_step_funcs cfg) (decay_cond cfg)] @ post"
       "\<forall>e \<in> set post. \<forall>site. \<not> is_run_start site e"
       "run_until (stop_now slv (reference_sim cfg) (decay_cond cfg)) 0 = Some n"
    by blast
  then show ?thesis
  proof cases
    case 1
    with assms show ?thesis by simp
  next
    case 2
    with assms show ?thesis by simp
  next
    case 3
    with assms show ?thesis by simp
  next
    case (4 n post)
    from 4(2) have np: "RunStart InRunSimulation sm fs cm \<notin> set post"
      by (metis is_run_start.simps(1))
    with assms 4(1) have eq: "sm = main_sim cfg (reference_data slv cfg n)"
      "fs = main_step_funcs cfg" "cm = decay_cond cfg"
      by auto
    from 4(2) have nl: "\<not> list_ex (is_run_start InRunSimulation) post"
      by (simp add: list_ex_iff)
    show ?thesis
      apply (rule exI[of _ n])
      apply (rule exI[of _ post])
      using 4(1,3) nl
      by (simp add: eq main_sim_props sim_run_def reference_data_def)
  qed
qed

text \<open>
  Claim C4 fails on the code. \<open>run_reference\<close> reads the incident flux before
  \<^verbatim>\<open>sim.reset_meep()\<close> and the flux data after it, so what \<open>run_simulation\<close> loads into
  the reflection monitor is the flux data of a simulation that has been reset, not the
  flux state the reference run captured. On the stub solver, with the script's
  configuration: the two runs are in order, the reference run left the flux data \<open>[1]\<close>,
  and the data loaded into the reflection monitor of the main run is empty.
\<close>

theorem flux_data_read_after_reset:
  "fst (run_simulation (stub_solver [Fin 1] [Fin 1] [Fin 1] (Some 2)) default_config
          ''output'' False)
     = [Makedirs ''output'',
        RunStart InRunReference (reference_sim default_config) [] (decay_cond default_config),
        RunEnd InRunReference 2, ResetMeep, GetFluxData 0 [], LoadMinusFluxData 0 [],
        RunStart InRunSimulation (main_sim default_config []) (main_step_funcs default_config)
          (decay_cond default_config),
        RunEnd InRunSimulation 2,
        Savez ''output/results.npz''
          (main_results (stub_solver [Fin 1] [Fin 1] [Fin 1] (Some 2)) default_config 2 2)]
   \<and> get_flux_data (stub_solver [Fin 1] [Fin 1] [Fin 1] (Some 2))
        ((reference_sim default_config)\<lparr>phase := Stepped 2\<rparr>) 0 = [Fin 1]
   \<and> get_flux_data (stub_solver [Fin 1] [Fin 1] [Fin 1] (Some 2))
        (reset_meep ((reference_sim default_config)\<lparr>phase := Stepped 2\<rparr>)) 0 = []
   \<and> dft_fluxes (main_sim default_config [] :: npfloat list simulation) ! 0
       = refl_spec default_config
   \<and> minus_flux_data (main_sim default_config [] :: npfloat list simulation) = [(0, [])]"
  unfolding stub_pipeline_returns [OF constructible_default_config]
  by (simp add: main_sim_props stub_solver_def reset_meep_def)

subsection \<open>The reflection monitor of the two runs\<close>

text \<open>
  Claim C5. Whenever both runs are started, the simulation of the reference run holds one
  flux monitor and the simulation of the main run holds two; the first monitor of the main
  run (its reflection monitor) is equal to the monitor of the reference run in centre,
  size, centre frequency, frequency width and number of bins, which is 50, so the solver
  gives both the same frequency grid.
\<close>

theorem reflection_monitors_identical:
  assumes "RunStart InRunReference sr fr cr \<in> set (fst (run_simulation slv cfg out plot))"
    and "RunStart InRunSimulation sm fm cm \<in> set (fst (run_simulation slv cfg out plot))"
  shows "\<exists>m_refl m_trans.
       dft_fluxes sr = [m_refl] \<and> dft_fluxes sm = [m_refl, m_trans]
     \<and> fs_center m_refl = Vector3 (- gap cfg / 2 - 1000) 0 (bridge_t cfg / 2)
     \<and> fs_size m_refl = Vector3 0 (bridge_w cfg) (bridge_t cfg * 3)
     \<and> fs_fcen m_refl = ghz_to_meep (Fin (freq_center_ghz cfg))
     \<and> fs_fwidth m_refl = ghz_to_meep (Fin (freq_width_ghz cfg))
     \<and> fs_nfreq m_refl = 50
     \<and> get_flux_freqs slv (fs_fcen (dft_fluxes sr ! 0)) (fs_fwidth (dft_fluxes sr ! 0))
           (fs_nfreq (dft_fluxes sr ! 0))
       = get_flux_freqs slv (fs_fcen (dft_fluxes sm ! 0)) (fs_fwidth (dft_fluxes sm ! 0))
           (fs_nfreq (dft_fluxes sm ! 0))"
proof -
  let ?tr = "fst (run_simulation slv cfg out plot)"
  from trace_cases[of slv cfg out plot] consider
      "?tr = []"
    | "?tr = [Makedirs out]"
    | "?tr = [Makedirs out, RunStart InRunReference (reference_sim cfg) [] (decay_cond cfg)]"
    | n post where "?tr =
        [Makedirs out, RunStart InRunReference (reference_sim cfg) [] (decay_cond cfg),
         RunEnd InRunReference n, ResetMeep, GetFluxData 0 (reference_data slv cfg n),
         LoadMinusFluxData 0 (reference_data slv cfg n),
         RunStart InRunSimulation (main_sim cfg (reference_data slv cfg n))
           (main_step_funcs cfg) (decay_cond cfg)] @ post"
       "\<forall>e \<in> set post. \<forall>site. \<not> is_run_start site e"
    by blast
  then show ?thesis
  proof cases
    case 1
    with assms(1) show ?thesis by simp
  next
    case 2
    with assms(1) show ?thesis by simp
  next
    case 3
    with assms(2) show ?thesis by simp
  next
    case (4 n post)
    from 4(2) have "RunStart InRunSimulation sm fm cm \<notin> set post"
      and "RunStart InRunReference sr fr cr \<notin> set post"
      by (metis is_run_start.simps(1))+
    with assms 4(1) have "sm = main_sim cfg (reference_data slv cfg n)"
      and "sr = reference_sim cfg"
      by auto
    then show ?thesis
      by (simp add: reference_sim_props main_sim_props refl_spec_def)
  qed
qed

theorem reflection_monitors_identical_witness:
  "RunStart InRunReference (reference_sim default_config) [] (decay_cond default_config)
     \<in> set (fst (run_simulation (stub_solver [Fin 1] [Fin 1] [Fin 1] (Some 2)) default_config
                   ''output'' False))
   \<and> RunStart InRunSimulation (main_sim default_config []) (main_step_funcs default_config)
       (decay_cond default_config)
     \<in> set (fst (run_simulation (stub_solver [Fin 1] [Fin 1] [Fin 1] (Some 2)) default_config
                   ''output'' False))
   \<and> (\<exists>m_refl m_trans.
         dft_fluxes (reference_sim default_config :: npfloat list simulation) = [m_refl]
       \<and> dft_fluxes (main_sim default_config [] :: npfloat list simulation)
           = [m_refl, m_trans]
       \<and> fs_center m_refl = Vector3 (- 2250) 0 250
       \<and> fs_size m_refl = Vector3 0 8000 1500
       \<and> fs_fcen m_refl = ghz_to_meep (Fin 5)
       \<and> fs_fwidth m_refl = ghz_to_meep (Fin 4)
       \<and> fs_nfreq m_refl = 50)"
proof -
  have h1: "RunStart InRunReference (reference_sim default_config) []
       (decay_cond default_config)
     \<in> set (fst (run_simulation (stub_solver [Fin 1] [Fin 1] [Fin 1] (Some 2)) default_config
                   ''output'' False))"
    unfolding stub_pipeline_returns [OF constructible_default_config] by simp
  have h2: "RunStart InRunSimulation (main_sim default_config [])
       (main_step_funcs default_config) (decay_cond default_config)
     \<in> set (fst (run_simulation (stub_solver [Fin 1] [Fin 1] [Fin 1] (Some 2)) default_config
                   ''output'' False))"
    unfolding stub_pipeline_returns [OF constructible_default_config] by simp
  from reflection_monitors_identical [OF h1 h2]
  obtain m_refl m_trans where
    m: "dft_fluxes (reference_sim default_config :: npfloat list simulation) = [m_refl]"
       "dft_fluxes (main_sim default_config [] :: npfloat list simulation)
          = [m_refl, m_trans]"
       "fs_center m_refl
          = Vector3 (- gap default_config / 2 - 1000) 0 (bridge_t default_config / 2)"
       "fs_size m_refl = Vector3 0 (bridge_w default_config) (bridge_t default_config * 3)"
       "fs_fcen m_refl = ghz_to_meep (Fin (freq_center_ghz default_config))"
       "fs_fwidth m_refl = ghz_to_meep (Fin (freq_width_ghz default_config))"
       "fs_nfreq m_refl = 50"
    by blast
  have v: "fs_center m_refl = Vector3 (- 2250) 0 250" "fs_size m_refl = Vector3 0 8000 1500"
    "fs_fcen m_refl = ghz_to_meep (Fin 5)" "fs_fwidth m_refl = ghz_to_meep (Fin 4)"
    using m(3-6) by (simp_all add: default_config_def MM_TO_UM_def)
  from h1 h2 m(1,2,7) v show ?thesis
    by blast
qed

subsection \<open>Termination of the runs\<close>

text \<open>
  Claim C6, as amended. The only bound on a run is the field-decay criterion. A run
  returns exactly when the criterion answers true at some step, and then at the first such
  step; a run whose criterion never answers true does not return. The pipeline does not
  return exactly when the output directory can be created, the geometry is constructed,
  and the criterion never answers true in the reference run, or the reference run returns
  and the criterion never answers true in the main run. There is no maximum-time ceiling,
  and the results carry no flag of convergence.
\<close>

theorem runs_bounded_by_decay_only:
  "(sim_run slv sim cond = None \<longleftrightarrow> (\<forall>k. \<not> stop_now slv sim cond k))
   \<and> (sim_run slv sim cond = Some (sim\<lparr>phase := Stepped n\<rparr>)
        \<longleftrightarrow> stop_now slv sim cond n \<and> (\<forall>j<n. \<not> stop_now slv sim cond j))
   \<and> (snd (run_simulation slv cfg out plot) = Diverged \<longleftrightarrow>
        makedirs_ok slv out \<and> (\<exists>g. build_geometry cfg = Inr g) \<and>
        ((\<forall>k. \<not> stop_now slv (reference_sim cfg) (decay_cond cfg) k) \<or>
         (\<exists>n. sim_run slv (reference_sim cfg) (decay_cond cfg)
                 = Some ((reference_sim cfg)\<lparr>phase := Stepped n\<rparr>)
              \<and> (\<forall>k. \<not> stop_now slv (main_sim cfg (reference_data slv cfg n))
                           (decay_cond cfg) k))))"
proof (intro conjI)
  show "sim_run slv sim cond = None \<longleftrightarrow> (\<forall>k. \<not> stop_now slv sim cond k)"
    by (simp add: sim_run_def run_until_None_iff)
  have inj: "sim\<lparr>phase := Stepped a\<rparr> = sim\<lparr>phase := Stepped b\<rparr> \<longleftrightarrow> a = b" for a b
    and sim :: "'a simulation"
    by (metis sim_phase.inject simulation.select_convs(9) simulation.surjective
        simulation.update_convs(9))
  show "sim_run slv sim cond = Some (sim\<lparr>phase := Stepped n\<rparr>)
        \<longleftrightarrow> stop_now slv sim cond n \<and> (\<forall>j<n. \<not> stop_now slv sim cond j)"
    by (auto simp add: sim_run_def run_until_Some_iff inj)
  have bg: "(\<exists>g. build_geometry cfg = Inr g) = constructible cfg"
    by (simp add: build_geometry_eq)
  show "snd (run_simulation slv cfg out plot) = Diverged \<longleftrightarrow>
        makedirs_ok slv out \<and> (\<exists>g. build_geometry cfg = Inr g) \<and>
        ((\<forall>k. \<not> stop_now slv (reference_sim cfg) (decay_cond cfg) k) \<or>
         (\<exists>n. sim_run slv (reference_sim cfg) (decay_cond cfg)
                 = Some ((reference_sim cfg)\<lparr>phase := Stepped n\<rparr>)
              \<and> (\<forall>k. \<not> stop_now slv (main_sim cfg (reference_data slv cfg n))
                           (decay_cond cfg) k)))"
    unfolding bg
  proof (cases "run_until (stop_now slv (reference_sim cfg) (decay_cond cfg)) 0")
    case None
    then have nv: "\<forall>k. \<not> stop_now slv (reference_sim cfg) (decay_cond cfg) k"
      by (simp add: run_until_None_iff)
    then show "snd (run_simulation slv cfg out plot) = Diverged \<longleftrightarrow>
        makedirs_ok slv out \<and> constructible cfg \<and>
        ((\<forall>k. \<not> stop_now slv (reference_sim cfg) (decay_cond cfg) k) \<or>
         (\<exists>n. sim_run slv (reference_sim cfg) (decay_cond cfg)
                 = Some ((reference_sim cfg)\<lparr>phase := Stepped n\<rparr>)
              \<and> (\<forall>k. \<not> stop_now slv (main_sim cfg (reference_data slv cfg n))
                           (decay_cond cfg) k)))"
      by (simp add: run_simulation_unfold None)
  next
    case (Some n0)
    then have ex: "\<exists>k. stop_now slv (reference_sim cfg) (decay_cond cfg) k"
      using run_until_SomeD by blast
    have r: "sim_run slv (reference_sim cfg) (decay_cond cfg)
                 = Some ((reference_sim cfg)\<lparr>phase := Stepped n\<rparr>) \<longleftrightarrow> n = n0" for n
      using Some by (auto simp add: sim_run_def inj)
    show "snd (run_simulation slv cfg out plot) = Diverged \<longleftrightarrow>
        makedirs_ok slv out \<and> constructible cfg \<and>
        ((\<forall>k. \<not> stop_now slv (reference_sim cfg) (decay_cond cfg) k) \<or>
         (\<exists>n. sim_run slv (reference_sim cfg) (decay_cond cfg)
                 = Some ((reference_sim cfg)\<lparr>phase := Stepped n\<rparr>)
              \<and> (\<forall>k. \<not> stop_now slv (main_sim cfg (reference_data slv cfg n))
                           (decay_cond cfg) k)))"
    proof (cases "run_until (stop_now slv (main_sim cfg (reference_data slv cfg n0))
                     (decay_cond cfg)) 0")
      case None
      then have "\<forall>k. \<not> stop_now slv (main_sim cfg (reference_data slv cfg n0))
                     (decay_cond cfg) k"
        by (simp add: run_until_None_iff)
      then show ?thesis
        using ex by (simp add: run_simulation_unfold Some None r)
    next
      case (Some m0)
      then have "\<exists>k. stop_now slv (main_sim cfg (reference_data slv cfg n0))
                     (decay_cond cfg) k"
        using run_until_SomeD by blast
      then show ?thesis
        using ex
        by (simp add: run_simulation_unfold Some
            \<open>run_until (stop_now slv (reference_sim cfg) (decay_cond cfg)) 0 = Some n0\<close> r)
    qed
  qed
qed

theorem runs_bounded_by_decay_only_witness:
  "(\<forall>k. \<not> stop_now (stub_solver [Fin 1] [Fin 1] [Fin 1] None)
            (reference_sim default_config) (decay_cond default_config) k)
   \<and> sim_run (stub_solver [Fin 1] [Fin 1] [Fin 1] None) (reference_sim default_config)
        (decay_cond default_config) = None
   \<and> makedirs_ok (stub_solver [Fin 1] [Fin 1] [Fin 1] None) ''output''
   \<and> (\<exists>g. build_geometry default_config = Inr g)
   \<and> snd (run_simulation (stub_solver [Fin 1] [Fin 1] [Fin 1] None) default_config
            ''output'' False)
       = Diverged
   \<and> stop_now (stub_solver [Fin 1] [Fin 1] [Fin 1] (Some 2)) (reference_sim default_config)
        (decay_cond default_config) 2
   \<and> sim_run (stub_solver [Fin 1] [Fin 1] [Fin 1] (Some 2)) (reference_sim default_config)
        (decay_cond default_config)
       = Some ((reference_sim default_config)\<lparr>phase := Stepped 2\<rparr>)"
proof -
  have a: "\<forall>k. \<not> stop_now (stub_solver [Fin 1] [Fin 1] [Fin 1] None)
            (reference_sim default_config) (decay_cond default_config) k"
    by (simp add: stub_solver_def)
  have b: "stop_now (stub_solver [Fin 1] [Fin 1] [Fin 1] (Some 2))
        (reference_sim default_config) (decay_cond default_config) 2
     \<and> (\<forall>j<2. \<not> stop_now (stub_solver [Fin 1] [Fin 1] [Fin 1] (Some 2))
        (reference_sim default_config) (decay_cond default_config) j)"
    by (simp add: stub_solver_def)
  have g: "\<exists>g. build_geometry default_config = Inr g"
    by (simp add: build_geometry_eq constructible_default_config)
  show ?thesis
    using a b g
      runs_bounded_by_decay_only
        [of "stub_solver [Fin 1] [Fin 1] [Fin 1] None" "reference_sim default_config"
            "decay_cond default_config" 0 default_config "''output''" False]
      runs_bounded_by_decay_only
        [of "stub_solver [Fin 1] [Fin 1] [Fin 1] (Some 2)" "reference_sim default_config"
            "decay_cond default_config" 2 default_config "''output''" False]
    by (simp add: stub_makedirs)
qed

text \<open>
  Claim C6 as stated fails: on a solver whose decay criterion never answers true the
  reference run does not return, so the pipeline does not return and emits no result.
\<close>

theorem never_decaying_run_counterexample:
  "sim_run (stub_solver [Fin 1] [Fin 1] [Fin 1] None) (reference_sim default_config)
        (decay_cond default_config) = None
   \<and> run_simulation (stub_solver [Fin 1] [Fin 1] [Fin 1] None) default_config ''output''
       False
     = ([Makedirs ''output'',
         RunStart InRunReference (reference_sim default_config) []
           (decay_cond default_config)],
        Diverged)"
  by (simp add: stub_pipeline_diverges constructible_default_config sim_run_def
      stub_run_until_None)

end
